theory Spec2Isabelle
  imports Main "HOL-Library.Char_ord" "HOL-Library.List_Lexorder" "HOL-Library.Word"
begin

section \<open>Shared model: pkg/svsh/svsh.go\<close>

text \<open>
  Go strings and byte slices are byte sequences: \<^typ>\<open>string\<close>. A \<^verbatim>\<open>[]byte\<close> that may be
  \<^verbatim>\<open>nil\<close> (a capture group that did not take part in a match) is a \<^typ>\<open>string option\<close>;
  Go's \<^verbatim>\<open>len\<close> and \<^verbatim>\<open>string(...)\<close> do not tell \<^verbatim>\<open>nil\<close> from the empty slice.
\<close>

type_synonym bytes = "string option"

definition blen :: "bytes \<Rightarrow> nat" where
  "blen b = (case b of None \<Rightarrow> 0 | Some s \<Rightarrow> length s)"

definition bstr :: "bytes \<Rightarrow> string" where
  "bstr b = (case b of None \<Rightarrow> [] | Some s \<Rightarrow> s)"

text \<open>
  Errors. \<^verbatim>\<open>fmt.Errorf(format, args...)\<close> is kept as a value: the format string of the
  source and its arguments (strings and byte slices, integers, errors, and the \<^verbatim>\<open>nil\<close>
  error that \<^verbatim>\<open>Runit.Fg\<close> passes to \<^verbatim>\<open>%w\<close>). \<open>ErrExternal\<close> is an error of the operating
  system or of a subprocess, with its message.
\<close>

datatype error =
    ErrUnsupportedCommand
  | ErrUnsupportedSignal
  | ErrExternal string
  | ErrSyntax
  | ErrRange
  | ErrDuration string
  | Errorf string "arg list"
and arg = S string | N int | E error | ENil

datatype Status =
  StatusUp | StatusDown | StatusResetting | StatusBackoff | StatusDisabled | StatusUnknown

fun Status_String :: "Status \<Rightarrow> string" where
  "Status_String StatusUp = ''up''"
| "Status_String StatusDown = ''down''"
| "Status_String StatusResetting = ''resetting''"
| "Status_String StatusBackoff = ''backoff''"
| "Status_String StatusDisabled = ''disabled''"
| "Status_String StatusUnknown = ''unknown''"

text \<open>\<open>Pid\<close> is a Go \<^verbatim>\<open>int\<close>; \<open>Duration\<close> is a \<^verbatim>\<open>time.Duration\<close>, a count of nanoseconds.\<close>

record Service =
  Name :: string
  Status :: Status
  Pid :: int
  Duration :: int

definition Second :: int where
  "Second = 1000000000"

section \<open>The Go standard library, as far as the adapters use it\<close>

subsection \<open>regexp: leftmost-first matching with capture groups\<close>

text \<open>
  The four patterns of the adapters are built from literals, \<open>+\<close> over a character class,
  alternation, \<open>?\<close>, capture groups and \<open>^\<close>. \<^verbatim>\<open>regexp\<close> returns the match a backtracking
  matcher finds first, at the leftmost start: \<open>rmatch\<close> lists the ways a pattern matches at
  a position in that order of preference (a greedy \<open>+\<close> tries the longest run first, \<open>?\<close>
  tries its body first, \<open>|\<close> its left side first). A state is the offset from the start of
  the text, the text still ahead, and the groups captured so far. All classes and literals
  of the four patterns are ASCII, so matching bytes and matching UTF-8 runes agree.
\<close>

datatype re =
    Bol
  | Lit string
  | Plus "char \<Rightarrow> bool"
  | Seq re re
  | Alt re re
  | Opt re
  | Cap nat re

type_synonym mstate = "nat \<times> string \<times> bytes list"

fun rmatch :: "re \<Rightarrow> mstate \<Rightarrow> mstate list" where
  "rmatch Bol (p, s, c) = (if p = 0 then [(p, s, c)] else [])"
| "rmatch (Lit l) (p, s, c) =
     (if take (length l) s = l then [(p + length l, drop (length l) s, c)] else [])"
| "rmatch (Plus P) (p, s, c) =
     map (\<lambda>k. (p + k, drop k s, c)) (rev [1 ..< Suc (length (takeWhile P s))])"
| "rmatch (Seq a b) st = concat (map (rmatch b) (rmatch a st))"
| "rmatch (Alt a b) st = rmatch a st @ rmatch b st"
| "rmatch (Opt a) st = rmatch a st @ [st]"
| "rmatch (Cap i a) (p, s, c) =
     map (\<lambda>(p', s', c'). (p', s', c'[i := Some (take (p' - p) s)])) (rmatch a (p, s, c))"

fun ngroups :: "re \<Rightarrow> nat" where
  "ngroups (Seq a b) = max (ngroups a) (ngroups b)"
| "ngroups (Alt a b) = max (ngroups a) (ngroups b)"
| "ngroups (Opt a) = ngroups a"
| "ngroups (Cap i a) = max i (ngroups a)"
| "ngroups _ = 0"

text \<open>
  \<open>search\<close> tries the start positions from left to right. The result has one entry for the
  whole match and one for each group, \<open>None\<close> for a group that took no part.
\<close>

fun search :: "re \<Rightarrow> nat \<Rightarrow> string \<Rightarrow> bytes list" where
  "search r p s =
     (case rmatch r (p, s, replicate (Suc (ngroups r)) None) of
        (p', s', c) # _ \<Rightarrow> c[0 := Some (take (p' - p) s)]
      | [] \<Rightarrow> (case s of [] \<Rightarrow> [] | _ # t \<Rightarrow> search r (Suc p) t))"

text \<open>\<^verbatim>\<open>(*Regexp).FindSubmatch\<close>: \<^verbatim>\<open>nil\<close>, here \<open>[]\<close>, when the text has no match.\<close>

definition FindSubmatch :: "re \<Rightarrow> string \<Rightarrow> bytes list" where
  "FindSubmatch r b = search r 0 b"

definition digit :: "char \<Rightarrow> bool" where
  "digit c = (CHR ''0'' \<le> c \<and> c \<le> CHR ''9'')"

subsection \<open>strconv\<close>

definition digit_val :: "char \<Rightarrow> int" where
  "digit_val c = of_char c - 48"

definition decimal :: "string \<Rightarrow> int" where
  "decimal ds = foldl (\<lambda>x c. x * 10 + digit_val c) 0 ds"

text \<open>
  \<^verbatim>\<open>strconv.Atoi\<close> on a 64-bit platform: an optional sign, then decimal digits and nothing
  else. Out of range it returns the nearest bound together with the error, and the adapters
  store the value before they look at the error. The \<^verbatim>\<open>*NumError\<close> wrapper is left out.
\<close>

definition Atoi :: "string \<Rightarrow> int \<times> error option" where
  "Atoi s =
     (let neg = (s \<noteq> [] \<and> hd s = CHR ''-'');
          ds = (if s \<noteq> [] \<and> (hd s = CHR ''-'' \<or> hd s = CHR ''+'') then tl s else s)
      in if ds = [] \<or> \<not> list_all digit ds then (0, Some ErrSyntax)
         else let v = decimal ds
              in if \<not> neg \<and> v \<ge> 2 ^ 63 then (2 ^ 63 - 1, Some ErrRange)
                 else if neg \<and> v > 2 ^ 63 then (- (2 ^ 63), Some ErrRange)
                 else (if neg then - v else v, None))"

text \<open>\<^verbatim>\<open>strconv.Itoa\<close>: the decimal digits of the absolute value, after the sign.\<close>

function digits_of :: "int \<Rightarrow> string" where
  "digits_of n =
     (if n < 10 then [char_of (48 + n)] else digits_of (n div 10) @ [char_of (48 + n mod 10)])"
  by pat_completeness auto
termination
  by (relation "measure nat") auto

definition Itoa :: "int \<Rightarrow> string" where
  "Itoa i = (if i < 0 then CHR ''-'' # digits_of (- i) else digits_of i)"

subsection \<open>time.ParseDuration\<close>

text \<open>
  \<^verbatim>\<open>leadingInt\<close> reads the leading digits into a \<^verbatim>\<open>uint64\<close>, failing once the value
  passes \<open>2^63\<close>; the guard before the multiplication keeps the arithmetic from wrapping, so
  the values are written as integers. What it leaves is the text after the digits.
\<close>

fun leadingInt_loop :: "int \<Rightarrow> string \<Rightarrow> int option" where
  "leadingInt_loop x [] = Some x"
| "leadingInt_loop x (c # s) =
     (if \<not> digit c then Some x
      else if x > 2 ^ 63 div 10 then None
      else let x' = x * 10 + digit_val c
           in if x' > 2 ^ 63 then None else leadingInt_loop x' s)"

definition leadingInt :: "string \<Rightarrow> int option \<times> string" where
  "leadingInt s = (leadingInt_loop 0 s, dropWhile digit s)"

text \<open>
  \<^verbatim>\<open>leadingFraction\<close>: the digits after a period, as a numerator and a power of ten; digits
  past the overflow point are dropped.
\<close>

fun leadingFraction_loop :: "int \<Rightarrow> int \<Rightarrow> bool \<Rightarrow> string \<Rightarrow> int \<times> int" where
  "leadingFraction_loop x scale ov [] = (x, scale)"
| "leadingFraction_loop x scale ov (c # s) =
     (if \<not> digit c then (x, scale)
      else if ov then leadingFraction_loop x scale ov s
      else if x > (2 ^ 63 - 1) div 10 then leadingFraction_loop x scale True s
      else let y = x * 10 + digit_val c
           in if y > 2 ^ 63 then leadingFraction_loop x scale True s
              else leadingFraction_loop y (scale * 10) ov s)"

definition leadingFraction :: "string \<Rightarrow> (int \<times> int) \<times> string" where
  "leadingFraction s = (leadingFraction_loop 0 1 False s, dropWhile digit s)"

text \<open>The unit table, in nanoseconds; the micro sign is spelt in UTF-8 in two ways.\<close>

definition unitMap :: "string \<Rightarrow> int option" where
  "unitMap u =
     (if u = ''ns'' then Some 1
      else if u = ''us'' then Some 1000
      else if u = [CHR 0xC2, CHR 0xB5, CHR ''s''] then Some 1000
      else if u = [CHR 0xCE, CHR 0xBC, CHR ''s''] then Some 1000
      else if u = ''ms'' then Some 1000000
      else if u = ''s'' then Some 1000000000
      else if u = ''m'' then Some 60000000000
      else if u = ''h'' then Some 3600000000000
      else None)"

text \<open>
  \<^verbatim>\<open>quote\<close> of package \<^verbatim>\<open>time\<close>, which the error texts wrap the offending value in: double
  quotes around the text, a backslash before a double quote or a backslash, and \<^verbatim>\<open>\xNN\<close>
  for every byte that is not printable ASCII.
\<close>

definition lowerhex :: "nat \<Rightarrow> char" where
  "lowerhex n = ''0123456789abcdef'' ! n"

definition quote_byte :: "char \<Rightarrow> string" where
  "quote_byte c =
     (if CHR 0x80 \<le> c \<or> c < CHR 0x20
        then [CHR 0x5C, CHR ''x'', lowerhex (of_char c div 16), lowerhex (of_char c mod 16)]
      else if c = CHR 0x22 \<or> c = CHR 0x5C then [CHR 0x5C, c]
      else [c])"

definition quote :: "string \<Rightarrow> string" where
  "quote s = CHR 0x22 # concat (map quote_byte s) @ [CHR 0x22]"

definition unit_char :: "char \<Rightarrow> bool" where
  "unit_char c = (\<not> (c = CHR ''.'' \<or> digit c))"

text \<open>
  One round of the loop of \<^verbatim>\<open>ParseDuration\<close> reads a component
  \<open>[0-9]*(\.[0-9]*)?[a-z]+\<close> off the front of \<open>s\<close>. First the number: the integer \<open>v\<close>, the
  fraction \<open>f / scale\<close> and the text left, with at least one digit on one side of the period.
\<close>

definition ParseDuration_number ::
  "string \<Rightarrow> string \<Rightarrow> error + (int \<times> int \<times> int \<times> string)" where
  "ParseDuration_number orig s =
     (if \<not> (hd s = CHR ''.'' \<or> digit (hd s))
        then Inl (ErrDuration (''time: invalid duration '' @ quote orig))
      else
        (case leadingInt s of
           (None, s1) \<Rightarrow> Inl (ErrDuration (''time: invalid duration '' @ quote orig))
         | (Some v, s1) \<Rightarrow>
            let pre = (length s \<noteq> length s1);
                dot = (s1 \<noteq> [] \<and> hd s1 = CHR ''.'');
                fr = (if dot then leadingFraction (tl s1) else ((0, 1), s1));
                post = (dot \<and> length (tl s1) \<noteq> length (snd fr))
            in if \<not> pre \<and> \<not> post
                 then Inl (ErrDuration (''time: invalid duration '' @ quote orig))
               else Inr (v, fst (fst fr), snd (fst fr), snd fr)))"

text \<open>
  Then the unit, and the sum \<open>d\<close> so far (a \<^verbatim>\<open>uint64\<close>) grows by the component. The
  contribution of a fraction is computed in \<^verbatim>\<open>float64\<close> by the library and exactly here;
  the adapters pass only the text of the groups \<open>\d+s\<close> and \<open>\d+\<close>, which has no period.
\<close>

definition ParseDuration_unit ::
  "string \<Rightarrow> int \<Rightarrow> int \<Rightarrow> int \<Rightarrow> string \<Rightarrow> int \<Rightarrow> error + (string \<times> int)" where
  "ParseDuration_unit orig v f scale s2 d =
     (let u = takeWhile unit_char s2
      in if u = []
           then Inl (ErrDuration (''time: missing unit in duration '' @ quote orig))
         else
           (case unitMap u of
              None \<Rightarrow> Inl (ErrDuration (''time: unknown unit '' @ quote u @ '' in duration '' @ quote orig))
            | Some unit \<Rightarrow>
                if v > 2 ^ 63 div unit
                  then Inl (ErrDuration (''time: invalid duration '' @ quote orig))
                else
                  let v' = v * unit + (if f > 0 then f * unit div scale else 0)
                  in if f > 0 \<and> v' > 2 ^ 63
                       then Inl (ErrDuration (''time: invalid duration '' @ quote orig))
                     else
                       let d' = (d + v') mod 2 ^ 64
                       in if d' > 2 ^ 63
                            then Inl (ErrDuration (''time: invalid duration '' @ quote orig))
                          else Inr (dropWhile unit_char s2, d')))"

definition ParseDuration_component :: "string \<Rightarrow> string \<Rightarrow> int \<Rightarrow> error + (string \<times> int)" where
  "ParseDuration_component orig s d =
     (case ParseDuration_number orig s of
        Inl e \<Rightarrow> Inl e
      | Inr (v, f, scale, s2) \<Rightarrow> ParseDuration_unit orig v f scale s2 d)"

lemma ParseDuration_number_shorter:
  assumes "ParseDuration_number orig s = Inr (v, f, scale, s2)"
  shows "length s2 \<le> length s"
proof -
  define s1 where "s1 = dropWhile digit s"
  have 1: "length s1 \<le> length s"
    by (simp add: s1_def length_dropWhile_le)
  have "length (dropWhile digit (tl s1)) \<le> length (tl s1)"
    by (rule length_dropWhile_le)
  then have 2: "length (dropWhile digit (tl s1)) \<le> length s1"
    by simp
  from assms have "s2 = s1 \<or> s2 = dropWhile digit (tl s1)"
    unfolding ParseDuration_number_def leadingInt_def leadingFraction_def Let_def s1_def
    by (simp split: if_splits option.splits)
  with 1 2 show ?thesis
    by auto
qed

lemma ParseDuration_unit_shorter:
  assumes "ParseDuration_unit orig v f scale s2 d = Inr (s', d')"
  shows "length s' < length s2"
proof -
  from assms have u: "takeWhile unit_char s2 \<noteq> []" and s': "s' = dropWhile unit_char s2"
    unfolding ParseDuration_unit_def Let_def
    by (simp_all split: if_splits option.splits)
  from u obtain c cs where c: "s2 = c # cs" "unit_char c"
    by (cases s2) (auto split: if_splits)
  have "length (dropWhile unit_char cs) \<le> length cs"
    by (rule length_dropWhile_le)
  with c s' show ?thesis
    by simp
qed

lemma ParseDuration_component_shorter:
  assumes "ParseDuration_component orig s d = Inr (s', d')"
  shows "length s' < length s"
proof (cases "ParseDuration_number orig s")
  case (Inl e)
  with assms show ?thesis
    by (simp add: ParseDuration_component_def)
next
  case (Inr r)
  obtain v f scale s2 where r: "r = (v, f, scale, s2)"
    by (cases r) auto
  from assms Inr r have "ParseDuration_unit orig v f scale s2 d = Inr (s', d')"
    by (simp add: ParseDuration_component_def)
  then have "length s' < length s2"
    by (rule ParseDuration_unit_shorter)
  moreover from Inr r have "length s2 \<le> length s"
    by (auto dest: ParseDuration_number_shorter)
  ultimately show ?thesis
    by simp
qed

text \<open>The loop itself runs until the text is used up.\<close>

function ParseDuration_loop :: "string \<Rightarrow> string \<Rightarrow> int \<Rightarrow> error + int" where
  "ParseDuration_loop orig s d =
     (if s = [] then Inr d
      else (case ParseDuration_component orig s d of
              Inl e \<Rightarrow> Inl e
            | Inr (s', d') \<Rightarrow> ParseDuration_loop orig s' d'))"
  by pat_completeness auto
termination
proof (relation "measure (\<lambda>(orig, s, d). length s)")
  show "wf (measure (\<lambda>(orig, s, d). length s))"
    by simp
next
  fix orig s :: string and d :: int and r :: "string \<times> int" and s' :: string and d' :: int
  assume "ParseDuration_component orig s d = Inr r" and "(s', d') = r"
  then have "length s' < length s"
    by (auto dest: ParseDuration_component_shorter)
  then show "((orig, s', d'), (orig, s, d)) \<in> measure (\<lambda>(orig, s, d). length s)"
    by simp
qed

text \<open>
  \<^verbatim>\<open>time.ParseDuration\<close>: an optional sign; \<open>0\<close> alone is zero; otherwise at least one
  component, each with its unit. On an error the duration returned is \<open>0\<close>.
\<close>

definition ParseDuration :: "string \<Rightarrow> int \<times> error option" where
  "ParseDuration orig =
     (let neg = (orig \<noteq> [] \<and> hd orig = CHR ''-'');
          s = (if orig \<noteq> [] \<and> (hd orig = CHR ''-'' \<or> hd orig = CHR ''+'') then tl orig else orig)
      in if s = ''0'' then (0, None)
         else if s = [] then (0, Some (ErrDuration (''time: invalid duration '' @ quote orig)))
         else
           (case ParseDuration_loop orig s 0 of
              Inl e \<Rightarrow> (0, Some e)
            | Inr d \<Rightarrow>
                if neg then (- d, None)
                else if d > 2 ^ 63 - 1
                  then (0, Some (ErrDuration (''time: invalid duration '' @ quote orig)))
                else (d, None)))"

subsection \<open>path/filepath, strings, sort\<close>

text \<open>\<^verbatim>\<open>filepath.Base\<close>: the last element of a path, after the trailing slashes are dropped.\<close>

definition Base :: "string \<Rightarrow> string" where
  "Base path =
     (if path = [] then ''.''
      else let p = rev (dropWhile (\<lambda>c. c = CHR ''/'') (rev path));
               e = rev (takeWhile (\<lambda>c. c \<noteq> CHR ''/'') (rev p))
           in if e = [] then ''/'' else e)"

fun split_slash :: "string \<Rightarrow> string list" where
  "split_slash [] = [[]]"
| "split_slash (c # s) =
     (if c = CHR ''/'' then [] # split_slash s
      else (case split_slash s of [] \<Rightarrow> [[c]] | e # es \<Rightarrow> (c # e) # es))"

fun join_slash :: "string list \<Rightarrow> string" where
  "join_slash [] = []"
| "join_slash [e] = e"
| "join_slash (e # es) = e @ ''/'' @ join_slash es"

text \<open>
  \<^verbatim>\<open>filepath.Clean\<close>, element by element: empty elements and \<open>.\<close> are dropped, \<open>..\<close> removes
  the element before it when there is one to remove, is kept at the front of a relative
  path, and is dropped at the root.
\<close>

definition Clean_element :: "bool \<Rightarrow> string list \<Rightarrow> string \<Rightarrow> string list" where
  "Clean_element rooted out e =
     (if e = [] \<or> e = ''.'' then out
      else if e = ''..'' then
        (if out \<noteq> [] \<and> last out \<noteq> ''..'' then butlast out
         else if \<not> rooted then out @ [''..'']
         else out)
      else out @ [e])"

definition Clean :: "string \<Rightarrow> string" where
  "Clean path =
     (if path = [] then ''.''
      else let rooted = (hd path = CHR ''/'');
               out = foldl (Clean_element rooted) [] (split_slash path)
           in if rooted then CHR ''/'' # join_slash out
              else if out = [] then ''.''
              else join_slash out)"

text \<open>\<^verbatim>\<open>filepath.Join\<close>: from the first non-empty element on, joined with slashes and cleaned.\<close>

definition Join :: "string list \<Rightarrow> string" where
  "Join elem =
     (case dropWhile (\<lambda>e. e = []) elem of
        [] \<Rightarrow> []
      | es \<Rightarrow> Clean (join_slash es))"

definition HasPrefix :: "string \<Rightarrow> string \<Rightarrow> bool" where
  "HasPrefix s pre = (take (length pre) s = pre)"

text \<open>
  \<^verbatim>\<open>sort.Strings\<close> puts the strings in increasing order, bytewise: the order of
  \<^typ>\<open>string\<close> here, and \<^const>\<open>sort\<close>.
\<close>

definition sort_Strings :: "string list \<Rightarrow> string list" where
  "sort_Strings xs = sort xs"

subsection \<open>The operating system\<close>

text \<open>
  A \<^verbatim>\<open>os.FileInfo\<close> is a name and a \<^verbatim>\<open>FileMode\<close> of 32 bits; \<^verbatim>\<open>ModeDir\<close> is bit 31,
  and the bit that \<^verbatim>\<open>findLogFile\<close> tests, \<^verbatim>\<open>1<<uint(32-1-4)\<close>, is \<^verbatim>\<open>ModeSymlink\<close>.
\<close>

record FileInfo =
  fi_Name :: string
  fi_Mode :: "32 word"

definition IsDir :: "FileInfo \<Rightarrow> bool" where
  "IsDir f = bit (fi_Mode f) 31"

text \<open>
  An \<^verbatim>\<open>exec.Cmd\<close>: the program, its arguments, and the environment when the caller
  replaces it.
\<close>

record Cmd =
  cmd_Name :: string
  cmd_Args :: "string list"
  cmd_Env :: "string list option"

text \<open>
  What the program asks of the system is answered by \<open>os\<close>: the entries of a directory, the
  target of a symbolic link, the combined output of a command run to its end, whether a
  command starts, and the message of the error \<^verbatim>\<open>Wait\<close> returns (if any). The answers are
  Go pairs: a value and an error that may be \<^verbatim>\<open>nil\<close>. The subprocesses a function starts
  are recorded, in order, in a list that it takes and returns.
\<close>

record os =
  ReadDir :: "string \<Rightarrow> FileInfo list \<times> error option"
  Readlink :: "string \<Rightarrow> string \<times> error option"
  CombinedOutput :: "Cmd \<Rightarrow> string \<times> error option"
  Start :: "Cmd \<Rightarrow> error option"
  Wait :: "Cmd \<Rightarrow> string option"

type_synonym trace = "Cmd list"

text \<open>
  \<^verbatim>\<open>syscall.Signal\<close> is an integer; the numbers are those of Linux, where \<^verbatim>\<open>/proc\<close> is.
\<close>

type_synonym Signal = int

definition SIGHUP :: Signal where "SIGHUP = 1"
definition SIGINT :: Signal where "SIGINT = 2"
definition SIGQUIT :: Signal where "SIGQUIT = 3"
definition SIGABRT :: Signal where "SIGABRT = 6"
definition SIGKILL :: Signal where "SIGKILL = 9"
definition SIGUSR1 :: Signal where "SIGUSR1 = 10"
definition SIGUSR2 :: Signal where "SIGUSR2 = 12"
definition SIGALRM :: Signal where "SIGALRM = 14"
definition SIGTERM :: Signal where "SIGTERM = 15"
definition SIGCONT :: Signal where "SIGCONT = 18"
definition SIGSTOP :: Signal where "SIGSTOP = 19"
definition SIGWINCH :: Signal where "SIGWINCH = 28"

section \<open>pkg/svsh/svsh.go: helpers\<close>

definition serviceDirs :: "os \<Rightarrow> string \<Rightarrow> string list \<times> error option" where
  "serviceDirs w baseDir =
     (case ReadDir w baseDir of
        (files, Some err) \<Rightarrow>
          ([], Some (Errorf ''failed reading base directory %q: %w'' [S baseDir, E err]))
      | (files, None) \<Rightarrow> (sort_Strings (map fi_Name (filter IsDir files)), None))"

definition mapStrings :: "string list \<Rightarrow> (string \<Rightarrow> string) \<Rightarrow> string list" where
  "mapStrings input fn = map fn input"

text \<open>
  The loop of \<^verbatim>\<open>findLogFile\<close> over the entries of \<^verbatim>\<open>/proc/<pid>/fd\<close>: the first symbolic
  link whose target is named \<open>current\<close>, or the first error reading a link.
\<close>

fun findLogFile_links :: "os \<Rightarrow> string \<Rightarrow> FileInfo list \<Rightarrow> string \<times> error option" where
  "findLogFile_links w dir [] = ([], None)"
| "findLogFile_links w dir (link # links) =
     (if bit (fi_Mode link) (32 - 1 - 4) then
        (case Readlink w (Join [dir, ''fd'', fi_Name link]) of
           (target, Some err) \<Rightarrow>
             ([], Some (Errorf ''failed reading link %q: %w'' [S (fi_Name link), E err]))
         | (target, None) \<Rightarrow>
             if Base target = ''current'' then (target, None)
             else findLogFile_links w dir links)
      else findLogFile_links w dir links)"

definition findLogFile :: "os \<Rightarrow> int \<Rightarrow> string \<times> error option" where
  "findLogFile w pid =
     (let dir = Join [''/proc'', Itoa pid]
      in case Readlink w (Join [dir, ''/exe'']) of
           (exe, Some err) \<Rightarrow> ([], Some (Errorf ''failed reading symbolic link: %w'' [E err]))
         | (exe, None) \<Rightarrow>
             if Base exe \<in> set [''tinylog'', ''s6-log'', ''svlogd'', ''multilog''] then
               (let fd = Join [dir, ''fd'']
                in case ReadDir w fd of
                     (links, Some err) \<Rightarrow>
                       ([], Some (Errorf ''failed reading fd directory %q: %w'' [S fd, E err]))
                   | (links, None) \<Rightarrow> findLogFile_links w dir links)
             else ([], None))"

section \<open>The adapters\<close>

text \<open>
  A sequence of patterns. The result of one round of a status loop: the service is skipped
  (\<^verbatim>\<open>continue\<close>), the listing is given up with an error (\<^verbatim>\<open>return svcs, err\<close>), or the
  service is appended.
\<close>

fun Seqs :: "re list \<Rightarrow> re" where
  "Seqs [] = Lit []"
| "Seqs [r] = r"
| "Seqs (r # rs) = Seq r (Seqs rs)"

datatype step = Continue | Return error | Append Service

subsection \<open>Runit\<close>

record Runit =
  BaseDir :: string
  DebugMode :: bool

definition fullSvcs :: "Runit \<Rightarrow> string list \<Rightarrow> string list" where
  "fullSvcs sv ss = mapStrings ss (\<lambda>s. Join [BaseDir sv, s])"

text \<open>\<^verbatim>\<open>^([^:]+):[^:]+:(?: \(pid (\d+)\))? (\d+s)\<close> and \<^verbatim>\<open>log: \(pid (\d+)\)\<close>\<close>

definition runitStatusRegexp :: re where
  "runitStatusRegexp =
     Seqs [Bol, Cap 1 (Plus (\<lambda>c. c \<noteq> CHR '':'')), Lit '':'', Plus (\<lambda>c. c \<noteq> CHR '':''), Lit '':'',
           Opt (Seqs [Lit '' (pid '', Cap 2 (Plus digit), Lit '')'']),
           Lit '' '', Cap 3 (Seqs [Plus digit, Lit ''s''])]"

definition runitLoggerRegexp :: re where
  "runitLoggerRegexp = Seqs [Lit ''log: (pid '', Cap 1 (Plus digit), Lit '')'']"

definition Runit_Cmd :: "Runit \<Rightarrow> string \<Rightarrow> string list \<Rightarrow> Cmd" where
  "Runit_Cmd sv subCmd args =
     \<lparr>cmd_Name = ''sv'', cmd_Args = subCmd # args, cmd_Env = Some [''SVDIR='' @ BaseDir sv]\<rparr>"

definition Runit_runCmd ::
  "Runit \<Rightarrow> os \<Rightarrow> string \<Rightarrow> string list \<Rightarrow> trace \<Rightarrow> (string \<times> error option) \<times> trace" where
  "Runit_runCmd sv w subCmd args tr =
     (CombinedOutput w (Runit_Cmd sv subCmd args), tr @ [Runit_Cmd sv subCmd args])"

text \<open>The \<^verbatim>\<open>switch\<close> of \<^verbatim>\<open>Runit.Status\<close> on the state; \<open>None\<close> is its \<^verbatim>\<open>default\<close>.\<close>

definition Runit_Status_switch :: "string \<Rightarrow> Status option" where
  "Runit_Status_switch m =
     (if m = ''run'' then Some StatusUp
      else if m = ''down'' then Some StatusDown
      else if m = ''backoff'' then Some StatusBackoff
      else if m = ''disabled'' then Some StatusDisabled
      else None)"

text \<open>The pid and the duration of a matched line, and the service appended.\<close>

definition Runit_Status_fields :: "bool \<Rightarrow> string \<Rightarrow> bytes list \<Rightarrow> Status \<Rightarrow> step" where
  "Runit_Status_fields debug svcName matches st =
     (let pid = (if blen (matches ! 2) > 0 then Atoi (bstr (matches ! 2)) else (0, None))
      in case (if debug then snd pid else None) of
           Some err \<Rightarrow>
             Return (Errorf ''failed parsing %q pid %q: %s''
                       [S svcName, S (bstr (matches ! 2)), E err])
         | None \<Rightarrow>
             (let dur = (if blen (matches ! 3) > 0 then ParseDuration (bstr (matches ! 3))
                         else (0, None))
              in case (if debug then snd dur else None) of
                   Some err \<Rightarrow>
                     Return (Errorf ''failed parsing %q duration %q: %s''
                               [S svcName, S (bstr (matches ! 3)), E err])
                 | None \<Rightarrow>
                     Append \<lparr>Name = svcName, Status = st, Pid = fst pid, Duration = fst dur\<rparr>))"

text \<open>One round of the loop of \<^verbatim>\<open>Runit.Status\<close>, from the answer of \<^verbatim>\<open>sv status\<close> on.\<close>

definition Runit_Status_body :: "bool \<Rightarrow> string \<Rightarrow> string \<times> error option \<Rightarrow> step" where
  "Runit_Status_body debug dir res =
     (let svcName = Base dir; raw = fst res
      in case snd res of
           Some err \<Rightarrow>
             if debug then Return (Errorf ''failed reading status of %q: %w'' [S svcName, E err])
             else Continue
         | None \<Rightarrow>
             (let matches = FindSubmatch runitStatusRegexp raw
              in if length matches \<noteq> 4 then
                   (if debug
                      then Return (Errorf ''failed parsing %q status output: %q'' [S svcName, S raw])
                    else Continue)
                 else
                   (case Runit_Status_switch (bstr (matches ! 1)) of
                      Some st \<Rightarrow> Runit_Status_fields debug svcName matches st
                    | None \<Rightarrow>
                        if debug
                          then Return (Errorf ''failed parsing %q status: %q''
                                         [S svcName, S (bstr (matches ! 1))])
                        else Runit_Status_fields debug svcName matches StatusUnknown)))"

fun Runit_Status_loop ::
  "Runit \<Rightarrow> os \<Rightarrow> string list \<Rightarrow> Service list \<Rightarrow> trace \<Rightarrow> (Service list \<times> error option) \<times> trace"
  where
  "Runit_Status_loop sv w [] svcs tr = ((svcs, None), tr)"
| "Runit_Status_loop sv w (dir # dirs) svcs tr =
     (case Runit_runCmd sv w ''status'' [dir] tr of
        (res, tr') \<Rightarrow>
          (case Runit_Status_body (DebugMode sv) dir res of
             Continue \<Rightarrow> Runit_Status_loop sv w dirs svcs tr'
           | Return err \<Rightarrow> ((svcs, Some err), tr')
           | Append svc \<Rightarrow> Runit_Status_loop sv w dirs (svcs @ [svc]) tr'))"

definition Runit_Status :: "Runit \<Rightarrow> os \<Rightarrow> trace \<Rightarrow> (Service list \<times> error option) \<times> trace" where
  "Runit_Status sv w tr =
     (case serviceDirs w (BaseDir sv) of
        (dirs, Some err) \<Rightarrow>
          (([], Some (Errorf ''failed finding service directories: %w'' [E err])), tr)
      | (dirs, None) \<Rightarrow> Runit_Status_loop sv w dirs [] tr)"

text \<open>The \<^verbatim>\<open>switch\<close> of \<^verbatim>\<open>Runit.Signal\<close>; \<open>None\<close> is its \<^verbatim>\<open>default\<close>.\<close>

definition Runit_Signal_switch :: "Signal \<Rightarrow> string option" where
  "Runit_Signal_switch signal =
     (if signal = SIGSTOP then Some ''pause''
      else if signal = SIGCONT then Some ''cont''
      else if signal = SIGHUP then Some ''hup''
      else if signal = SIGALRM then Some ''alarm''
      else if signal = SIGINT then Some ''interrupt''
      else if signal = SIGQUIT then Some ''quit''
      else if signal = SIGUSR1 then Some ''1''
      else if signal = SIGUSR2 then Some ''2''
      else if signal = SIGTERM then Some ''term''
      else if signal = SIGKILL then Some ''kill''
      else None)"

definition Runit_Signal ::
  "Runit \<Rightarrow> os \<Rightarrow> Signal \<Rightarrow> string list \<Rightarrow> trace \<Rightarrow> error option \<times> trace" where
  "Runit_Signal sv w signal svcs tr =
     (case Runit_Signal_switch signal of
        None \<Rightarrow> (Some ErrUnsupportedSignal, tr)
      | Some cmd \<Rightarrow>
          (case Runit_runCmd sv w cmd (fullSvcs sv svcs) tr of (res, tr') \<Rightarrow> (snd res, tr')))"

text \<open>
  \<^verbatim>\<open>Runit.Fg\<close>. Once \<^verbatim>\<open>tail\<close> has started, the function hands the first interrupt to it and
  waits for its end; what \<^verbatim>\<open>Wait\<close> then reports is the answer of the system.
\<close>

definition Runit_Fg :: "Runit \<Rightarrow> os \<Rightarrow> string \<Rightarrow> trace \<Rightarrow> error option \<times> trace" where
  "Runit_Fg sv w svc tr =
     (case Runit_runCmd sv w ''status'' [Join [BaseDir sv, svc]] tr of
        ((txt, Some err), tr1) \<Rightarrow>
          (Some (Errorf ''failed getting service status: %w'' [E err]), tr1)
      | ((txt, None), tr1) \<Rightarrow>
          (let matches = FindSubmatch runitLoggerRegexp txt
           in if length matches \<noteq> 2
                then (Some (Errorf ''failed parsing logger process status: %w'' [ENil]), tr1)
              else
                (case Atoi (bstr (matches ! 1)) of
                   (pid, Some err) \<Rightarrow>
                     (Some (Errorf ''failed parsing logger process pid %q: %w''
                              [S (bstr (matches ! 1)), E err]), tr1)
                 | (pid, None) \<Rightarrow>
                     (case findLogFile w pid of
                        (file, Some err) \<Rightarrow>
                          (Some (Errorf ''failed finding log file: %w'' [E err]), tr1)
                      | (file, None) \<Rightarrow>
                          if file = [] then (Some (Errorf ''no log file found'' []), tr1)
                          else
                            (let cmd = \<lparr>cmd_Name = ''tail'', cmd_Args = [''-f'', file],
                                        cmd_Env = None\<rparr>
                             in case Start w cmd of
                                  Some err \<Rightarrow>
                                    (Some (Errorf ''failed starting tail: %w'' [E err]), tr1)
                                | None \<Rightarrow>
                                    (case Wait w cmd of
                                       None \<Rightarrow> (None, tr1 @ [cmd])
                                     | Some msg \<Rightarrow>
                                         if \<not> HasPrefix msg ''signal:''
                                           then (Some (Errorf ''failed tailing log: %w''
                                                         [E (ErrExternal msg)]), tr1 @ [cmd])
                                         else (None, tr1 @ [cmd])))))))"

definition Runit_Rescan :: "Runit \<Rightarrow> os \<Rightarrow> trace \<Rightarrow> error option \<times> trace" where
  "Runit_Rescan sv w tr = (Some ErrUnsupportedCommand, tr)"

subsection \<open>S6\<close>

record S6 =
  S6_BaseDir :: string
  S6_DebugMode :: bool

definition fullService :: "S6 \<Rightarrow> string \<Rightarrow> string" where
  "fullService sv s = Join [S6_BaseDir sv, s]"

text \<open>\<^verbatim>\<open>(up|down) \(([^\)]+)\) (\d+)/\<close> and \<^verbatim>\<open>pid (\d+)\<close>\<close>

definition s6StatusRegexp :: re where
  "s6StatusRegexp =
     Seqs [Cap 1 (Alt (Lit ''up'') (Lit ''down'')), Lit '' ('', Cap 2 (Plus (\<lambda>c. c \<noteq> CHR '')'')),
           Lit '') '', Cap 3 (Plus digit), Lit ''/'']"

definition s6PidRegexp :: re where
  "s6PidRegexp = Seqs [Lit ''pid '', Cap 1 (Plus digit)]"

definition S6_Cmd :: "string \<Rightarrow> string \<Rightarrow> string list \<Rightarrow> Cmd" where
  "S6_Cmd cmdName subCmd args =
     \<lparr>cmd_Name = cmdName, cmd_Args = subCmd # args, cmd_Env = None\<rparr>"

definition S6_runCmd ::
  "S6 \<Rightarrow> os \<Rightarrow> string \<Rightarrow> string \<Rightarrow> string list \<Rightarrow> trace \<Rightarrow> (string \<times> error option) \<times> trace"
  where
  "S6_runCmd sv w cmdName subCmd args tr =
     (CombinedOutput w (S6_Cmd cmdName subCmd args), tr @ [S6_Cmd cmdName subCmd args])"

text \<open>The \<^verbatim>\<open>switch\<close> of \<^verbatim>\<open>S6.Status\<close> on the state; \<open>None\<close> is its \<^verbatim>\<open>default\<close>.\<close>

definition S6_Status_switch :: "string \<Rightarrow> Status option" where
  "S6_Status_switch m =
     (if m = ''up'' then Some StatusUp
      else if m = ''down'' then Some StatusDown
      else None)"

definition S6_Status_fields :: "bool \<Rightarrow> string \<Rightarrow> bytes list \<Rightarrow> Status \<Rightarrow> step" where
  "S6_Status_fields debug svcName matches st =
     (let pm = (if blen (matches ! 2) > 0 then FindSubmatch s6PidRegexp (bstr (matches ! 2))
                else []);
          pid = (if length pm = 2 then Atoi (bstr (pm ! 1)) else (0, None))
      in case (if debug then snd pid else None) of
           Some err \<Rightarrow>
             Return (Errorf ''failed parsing %q pid %q: %s''
                       [S svcName, S (bstr (pm ! 1)), E err])
         | None \<Rightarrow>
             (let dur = (if blen (matches ! 3) > 0 then ParseDuration (bstr (matches ! 3))
                         else (0, None))
              in case (if debug then snd dur else None) of
                   Some err \<Rightarrow>
                     Return (Errorf ''failed parsing %q duration %q: %s''
                               [S svcName, S (bstr (matches ! 3)), E err])
                 | None \<Rightarrow>
                     Append \<lparr>Name = svcName, Status = st, Pid = fst pid, Duration = fst dur\<rparr>))"

definition S6_Status_body :: "bool \<Rightarrow> string \<Rightarrow> string \<times> error option \<Rightarrow> step" where
  "S6_Status_body debug dir res =
     (let svcName = Base dir; raw = fst res
      in case snd res of
           Some err \<Rightarrow>
             if debug then Return (Errorf ''failed reading status of %q: %w'' [S svcName, E err])
             else Continue
         | None \<Rightarrow>
             (let matches = FindSubmatch s6StatusRegexp raw
              in if length matches \<noteq> 4 then
                   (if debug
                      then Return (Errorf ''failed parsing %q status output: %q'' [S svcName, S raw])
                    else Continue)
                 else
                   (case S6_Status_switch (bstr (matches ! 1)) of
                      Some st \<Rightarrow> S6_Status_fields debug svcName matches st
                    | None \<Rightarrow>
                        if debug
                          then Return (Errorf ''failed parsing %q status: %q''
                                         [S svcName, S (bstr (matches ! 1))])
                        else S6_Status_fields debug svcName matches StatusUnknown)))"

fun S6_Status_loop ::
  "S6 \<Rightarrow> os \<Rightarrow> string list \<Rightarrow> Service list \<Rightarrow> trace \<Rightarrow> (Service list \<times> error option) \<times> trace"
  where
  "S6_Status_loop sv w [] svcs tr = ((svcs, None), tr)"
| "S6_Status_loop sv w (dir # dirs) svcs tr =
     (case S6_runCmd sv w ''s6-svstat'' (Join [S6_BaseDir sv, dir]) [] tr of
        (res, tr') \<Rightarrow>
          (case S6_Status_body (S6_DebugMode sv) dir res of
             Continue \<Rightarrow> S6_Status_loop sv w dirs svcs tr'
           | Return err \<Rightarrow> ((svcs, Some err), tr')
           | Append svc \<Rightarrow> S6_Status_loop sv w dirs (svcs @ [svc]) tr'))"

definition S6_Status :: "S6 \<Rightarrow> os \<Rightarrow> trace \<Rightarrow> (Service list \<times> error option) \<times> trace" where
  "S6_Status sv w tr =
     (case serviceDirs w (S6_BaseDir sv) of
        (dirs, Some err) \<Rightarrow>
          (([], Some (Errorf ''failed finding service directories: %w'' [E err])), tr)
      | (dirs, None) \<Rightarrow> S6_Status_loop sv w dirs [] tr)"

text \<open>The \<^verbatim>\<open>switch\<close> of \<^verbatim>\<open>S6.Signal\<close>; \<open>None\<close> is its \<^verbatim>\<open>default\<close>.\<close>

definition S6_Signal_switch :: "Signal \<Rightarrow> string option" where
  "S6_Signal_switch signal =
     (if signal = SIGALRM then Some ''-a''
      else if signal = SIGABRT then Some ''-b''
      else if signal = SIGQUIT then Some ''-q''
      else if signal = SIGHUP then Some ''-h''
      else if signal = SIGKILL then Some ''-k''
      else if signal = SIGTERM then Some ''-t''
      else if signal = SIGINT then Some ''-i''
      else if signal = SIGUSR1 then Some ''-1''
      else if signal = SIGUSR2 then Some ''-2''
      else if signal = SIGCONT then Some ''-c''
      else if signal = SIGWINCH then Some ''-y''
      else None)"

fun S6_Signal_loop :: "S6 \<Rightarrow> os \<Rightarrow> string \<Rightarrow> string list \<Rightarrow> trace \<Rightarrow> error option \<times> trace" where
  "S6_Signal_loop sv w cmd [] tr = (None, tr)"
| "S6_Signal_loop sv w cmd (svc # svcs) tr =
     (case S6_runCmd sv w ''s6-svc'' cmd [fullService sv svc] tr of
        (res, tr') \<Rightarrow>
          (case snd res of
             Some err \<Rightarrow> (Some (Errorf ''failed signaling %s: %s'' [S svc, E err]), tr')
           | None \<Rightarrow> S6_Signal_loop sv w cmd svcs tr'))"

definition S6_Signal ::
  "S6 \<Rightarrow> os \<Rightarrow> Signal \<Rightarrow> string list \<Rightarrow> trace \<Rightarrow> error option \<times> trace" where
  "S6_Signal sv w signal svcs tr =
     (case S6_Signal_switch signal of
        None \<Rightarrow> (Some ErrUnsupportedSignal, tr)
      | Some cmd \<Rightarrow> S6_Signal_loop sv w cmd svcs tr)"

section \<open>Example systems\<close>

text \<open>
  A base directory \<^verbatim>\<open>/etc/service\<close> with the service directories \<open>web\<close> and \<open>db\<close> and a
  plain file. In \<open>scenario_A_stated\<close> the status texts are those of scenario A of the
  specification; in \<open>scenario_A_sv\<close> they have the form \<^verbatim>\<open>sv status\<close> prints, with the
  name of the service between two colons.
\<close>

definition scenario_A_files :: "FileInfo list" where
  "scenario_A_files =
     [\<lparr>fi_Name = ''web'', fi_Mode = 0x800001ED\<rparr>, \<lparr>fi_Name = ''db'', fi_Mode = 0x800001ED\<rparr>,
      \<lparr>fi_Name = ''README'', fi_Mode = 0x1A4\<rparr>]"

definition scenario_A_stated :: os where
  "scenario_A_stated =
     \<lparr>ReadDir = (\<lambda>d. if d = ''/etc/service'' then (scenario_A_files, None)
                      else ([], Some (ErrExternal ''no such file or directory''))),
      Readlink = (\<lambda>p. ([], Some (ErrExternal ''no such file or directory''))),
      CombinedOutput =
        (\<lambda>c. if cmd_Args c = [''status'', ''web''] then (''run: (pid 123) 45s'', None)
              else if cmd_Args c = [''status'', ''db''] then (''down: 12s'', None)
              else ([], Some (ErrExternal ''exit status 1''))),
      Start = (\<lambda>c. None),
      Wait = (\<lambda>c. None)\<rparr>"

definition scenario_A_sv :: os where
  "scenario_A_sv =
     scenario_A_stated
       \<lparr>CombinedOutput :=
          (\<lambda>c. if cmd_Args c = [''status'', ''web''] then (''run: web: (pid 123) 45s'', None)
                else if cmd_Args c = [''status'', ''db''] then (''down: db: 12s'', None)
                else ([], Some (ErrExternal ''exit status 1'')))\<rparr>"

definition etc_service :: "bool \<Rightarrow> Runit" where
  "etc_service debug = \<lparr>BaseDir = ''/etc/service'', DebugMode = debug\<rparr>"

text \<open>
  A system given by the entries of one directory and by the texts that commands print,
  looked up by their arguments; any other command fails.
\<close>

definition example_os :: "string \<Rightarrow> FileInfo list \<Rightarrow> (string list \<times> string) list \<Rightarrow> os" where
  "example_os base files outs =
     \<lparr>ReadDir = (\<lambda>d. if d = base then (files, None)
                      else ([], Some (ErrExternal ''no such file or directory''))),
      Readlink = (\<lambda>p. ([], Some (ErrExternal ''no such file or directory''))),
      CombinedOutput =
        (\<lambda>c. case map_of outs (cmd_Args c) of
                Some txt \<Rightarrow> (txt, None)
              | None \<Rightarrow> ([], Some (ErrExternal ''exit status 1''))),
      Start = (\<lambda>c. None),
      Wait = (\<lambda>c. None)\<rparr>"

definition three_dirs :: "FileInfo list" where
  "three_dirs =
     [\<lparr>fi_Name = ''web'', fi_Mode = 0x800001ED\<rparr>, \<lparr>fi_Name = ''mail'', fi_Mode = 0x800001ED\<rparr>,
      \<lparr>fi_Name = ''db'', fi_Mode = 0x800001ED\<rparr>, \<lparr>fi_Name = ''README'', fi_Mode = 0x1A4\<rparr>]"

text \<open>Three runit services; the status text of \<open>mail\<close> does not match the pattern.\<close>

definition runit_mixed :: os where
  "runit_mixed =
     example_os ''/etc/service'' three_dirs
       [([''status'', ''web''], ''run: web: (pid 123) 45s''),
        ([''status'', ''db''], ''down: db: 12s''),
        ([''status'', ''mail''], ''fail: mail: runsv not running'')]"


text \<open>
  Three s6 services under \<^verbatim>\<open>/run/service\<close>; the status text of \<open>mail\<close> does not match the
  pattern, the other two match it with the duration token \<open>0\<close>.
\<close>

definition run_service :: "bool \<Rightarrow> S6" where
  "run_service debug = \<lparr>S6_BaseDir = ''/run/service'', S6_DebugMode = debug\<rparr>"

definition s6_mixed :: os where
  "s6_mixed =
     example_os ''/run/service'' three_dirs
       [([''/run/service/web''], ''up (pid 123) 0/''),
        ([''/run/service/db''], ''down (exitcode 0) 0/''),
        ([''/run/service/mail''], ''s6-svstat: fatal: unable to read status'')]"

text \<open>
  Two s6 services whose status texts match the pattern with the duration tokens \<open>45\<close> and
  \<open>7\<close>; the status command of the third directory, \<open>mail\<close>, fails.
\<close>

definition s6_running :: os where
  "s6_running =
     example_os ''/run/service'' three_dirs
       [([''/run/service/web''], ''up (pid 123) 45/''),
        ([''/run/service/db''], ''down (exitcode 0) 7/'')]"

text \<open>
  An s6 system in which \<^verbatim>\<open>s6-svc -1\<close> succeeds on \<open>web\<close> and on \<open>db\<close>, and nothing else does.
\<close>

definition s6_signalled :: os where
  "s6_signalled =
     example_os ''/run/service'' three_dirs
       [([''-1'', ''/run/service/web''], []), ([''-1'', ''/run/service/db''], [])]"

text \<open>
  A runit system in which the logger of \<open>web\<close>, \<^verbatim>\<open>svlogd\<close> with pid 124, has three open
  descriptors: a pipe, \<^verbatim>\<open>/dev/null\<close> and a lock file; none is a file named \<open>current\<close>.
\<close>

definition fg_os :: os where
  "fg_os =
     \<lparr>ReadDir = (\<lambda>d. if d = ''/proc/124/fd''
                      then ([\<lparr>fi_Name = ''0'', fi_Mode = 0x80001C0\<rparr>,
                             \<lparr>fi_Name = ''1'', fi_Mode = 0x80001C0\<rparr>,
                             \<lparr>fi_Name = ''4'', fi_Mode = 0x80001C0\<rparr>], None)
                      else ([], Some (ErrExternal ''no such file or directory''))),
      Readlink = (\<lambda>p. if p = ''/proc/124/exe'' then (''/usr/bin/svlogd'', None)
                       else if p = ''/proc/124/fd/0'' then (''pipe:[12345]'', None)
                       else if p = ''/proc/124/fd/1'' then (''/dev/null'', None)
                       else if p = ''/proc/124/fd/4'' then (''/var/log/web/lock'', None)
                       else ([], Some (ErrExternal ''no such file or directory''))),
      CombinedOutput =
        (\<lambda>c. if cmd_Args c = [''status'', ''/etc/service/web'']
              then (''run: /etc/service/web: (pid 123) 45s; run: log: (pid 124) 45s'', None)
              else ([], Some (ErrExternal ''exit status 1''))),
      Start = (\<lambda>c. None),
      Wait = (\<lambda>c. None)\<rparr>"

section \<open>Properties\<close>

subsection \<open>The rounds and the loops of the listings\<close>

lemma Base_id:
  assumes "d \<noteq> []" and "CHR ''/'' \<notin> set d"
  shows "Base d = d"
proof -
  from assms have "hd (rev d) \<noteq> CHR ''/''"
    by (metis hd_rev last_in_set)
  with assms(1) have 1: "dropWhile (\<lambda>c. c = CHR ''/'') (rev d) = rev d"
    by (cases "rev d") auto
  from assms(2) have 2: "takeWhile (\<lambda>c. c \<noteq> CHR ''/'') (rev d) = rev d"
    by (auto intro: takeWhile_eq_all_conv [THEN iffD2])
  from assms(1) show ?thesis
    by (simp add: Base_def 1 2)
qed

lemma Runit_fields_Append:
  assumes "Runit_Status_fields debug n m st = Append svc"
  shows "Name svc = n \<and> Status svc = st"
  using assms unfolding Runit_Status_fields_def Let_def
  by (auto split: option.splits)

lemma Runit_fields_normal:
  "\<exists>svc. Runit_Status_fields False n m st = Append svc"
  unfolding Runit_Status_fields_def Let_def by simp


lemma Runit_body_Append:
  assumes "Runit_Status_body debug dir res = Append svc"
  shows "Name svc = Base dir"
  using assms unfolding Runit_Status_body_def Let_def
  by (auto split: option.splits if_splits dest: Runit_fields_Append)

lemma Runit_body_normal:
  "Runit_Status_body False dir res \<noteq> Return e"
  using Runit_fields_normal unfolding Runit_Status_body_def Let_def
  by (auto split: option.splits) (metis step.distinct(5))+




lemma Runit_loop_sorted:
  assumes "sorted (map Name svcs @ map Base dirs)"
  shows "sorted (map Name (fst (fst (Runit_Status_loop sv w dirs svcs tr))))"
  using assms
proof (induction dirs arbitrary: svcs tr)
  case Nil
  then show ?case by simp
next
  case (Cons dir dirs)
  let ?b = "Runit_Status_body (DebugMode sv) dir (CombinedOutput w (Runit_Cmd sv ''status'' [dir]))"
  show ?case
  proof (cases ?b)
    case Continue
    from Cons.prems have "sorted (map Name svcs @ map Base dirs)"
      by (auto simp: sorted_append)
    then show ?thesis
      using Continue by (simp add: Runit_runCmd_def Cons.IH)
  next
    case (Return e)
    from Cons.prems have "sorted (map Name svcs)"
      by (auto simp: sorted_append)
    then show ?thesis
      using Return by (simp add: Runit_runCmd_def)
  next
    case (Append svc)
    then have "Name svc = Base dir"
      by (rule Runit_body_Append)
    with Cons.prems have "sorted (map Name (svcs @ [svc]) @ map Base dirs)"
      by simp
    then show ?thesis
      using Append by (simp add: Runit_runCmd_def Cons.IH del: map_append)
  qed
qed

lemma Runit_loop_names:
  "set (map Name (fst (fst (Runit_Status_loop sv w dirs svcs tr))))
     \<subseteq> set (map Name svcs) \<union> Base ` set dirs"
proof (induction dirs arbitrary: svcs tr)
  case Nil
  show ?case by simp
next
  case (Cons dir dirs)
  let ?b = "Runit_Status_body (DebugMode sv) dir (CombinedOutput w (Runit_Cmd sv ''status'' [dir]))"
  show ?case
  proof (cases ?b)
    case Continue
    then show ?thesis
      using Cons.IH [of svcs] by (auto simp: Runit_runCmd_def)
  next
    case (Return e)
    then show ?thesis
      by (auto simp: Runit_runCmd_def)
  next
    case (Append svc)
    then have "Name svc = Base dir"
      by (rule Runit_body_Append)
    then show ?thesis
      using Append Cons.IH [of "svcs @ [svc]"] by (auto simp: Runit_runCmd_def)
  qed
qed

lemma Runit_loop_normal:
  assumes "\<not> DebugMode sv"
  shows "snd (fst (Runit_Status_loop sv w dirs svcs tr)) = None"
proof (induction dirs arbitrary: svcs tr)
  case Nil
  show ?case by simp
next
  case (Cons dir dirs)
  show ?case
    using assms Runit_body_normal
    by (simp add: Runit_runCmd_def Cons.IH split: step.splits)
qed

lemma S6_fields_Append:
  assumes "S6_Status_fields debug n m st = Append svc"
  shows "Name svc = n \<and> Status svc = st"
  using assms unfolding S6_Status_fields_def Let_def
  by (auto split: option.splits)

lemma S6_fields_normal:
  "\<exists>svc. S6_Status_fields False n m st = Append svc"
  unfolding S6_Status_fields_def Let_def by simp


lemma S6_body_Append:
  assumes "S6_Status_body debug dir res = Append svc"
  shows "Name svc = Base dir"
  using assms unfolding S6_Status_body_def Let_def
  by (auto split: option.splits if_splits dest: S6_fields_Append)

lemma S6_body_normal:
  "S6_Status_body False dir res \<noteq> Return e"
  using S6_fields_normal unfolding S6_Status_body_def Let_def
  by (auto split: option.splits) (metis step.distinct(5))+




lemma S6_loop_sorted:
  assumes "sorted (map Name svcs @ map Base dirs)"
  shows "sorted (map Name (fst (fst (S6_Status_loop sv w dirs svcs tr))))"
  using assms
proof (induction dirs arbitrary: svcs tr)
  case Nil
  then show ?case by simp
next
  case (Cons dir dirs)
  let ?b = "S6_Status_body (S6_DebugMode sv) dir (CombinedOutput w (S6_Cmd ''s6-svstat'' (Join [S6_BaseDir sv, dir]) []))"
  show ?case
  proof (cases ?b)
    case Continue
    from Cons.prems have "sorted (map Name svcs @ map Base dirs)"
      by (auto simp: sorted_append)
    then show ?thesis
      using Continue by (simp add: S6_runCmd_def Cons.IH)
  next
    case (Return e)
    from Cons.prems have "sorted (map Name svcs)"
      by (auto simp: sorted_append)
    then show ?thesis
      using Return by (simp add: S6_runCmd_def)
  next
    case (Append svc)
    then have "Name svc = Base dir"
      by (rule S6_body_Append)
    with Cons.prems have "sorted (map Name (svcs @ [svc]) @ map Base dirs)"
      by simp
    then show ?thesis
      using Append by (simp add: S6_runCmd_def Cons.IH del: map_append)
  qed
qed

lemma S6_loop_names:
  "set (map Name (fst (fst (S6_Status_loop sv w dirs svcs tr))))
     \<subseteq> set (map Name svcs) \<union> Base ` set dirs"
proof (induction dirs arbitrary: svcs tr)
  case Nil
  show ?case by simp
next
  case (Cons dir dirs)
  let ?b = "S6_Status_body (S6_DebugMode sv) dir (CombinedOutput w (S6_Cmd ''s6-svstat'' (Join [S6_BaseDir sv, dir]) []))"
  show ?case
  proof (cases ?b)
    case Continue
    then show ?thesis
      using Cons.IH [of svcs] by (auto simp: S6_runCmd_def)
  next
    case (Return e)
    then show ?thesis
      by (auto simp: S6_runCmd_def)
  next
    case (Append svc)
    then have "Name svc = Base dir"
      by (rule S6_body_Append)
    then show ?thesis
      using Append Cons.IH [of "svcs @ [svc]"] by (auto simp: S6_runCmd_def)
  qed
qed

lemma S6_loop_normal:
  assumes "\<not> S6_DebugMode sv"
  shows "snd (fst (S6_Status_loop sv w dirs svcs tr)) = None"
proof (induction dirs arbitrary: svcs tr)
  case Nil
  show ?case by simp
next
  case (Cons dir dirs)
  show ?case
    using assms S6_body_normal
    by (simp add: S6_runCmd_def Cons.IH split: step.splits)
qed


lemma S6_fields_status:
  assumes "S6_Status_fields debug n m st = Append svc"
  shows "Status svc = st"
  using assms by (simp add: S6_fields_Append)

lemma S6_body_status:
  assumes "S6_Status_body debug dir res = Append svc"
  shows "Status svc \<in> {StatusUp, StatusDown, StatusUnknown}"
  using assms unfolding S6_Status_body_def S6_Status_switch_def Let_def
  by (auto split: option.splits if_splits dest: S6_fields_status)

lemma S6_loop_status:
  assumes "\<forall>svc \<in> set svcs. Status svc \<in> {StatusUp, StatusDown, StatusUnknown}"
  shows "\<forall>svc \<in> set (fst (fst (S6_Status_loop sv w dirs svcs tr))).
           Status svc \<in> {StatusUp, StatusDown, StatusUnknown}"
  using assms
proof (induction dirs arbitrary: svcs tr)
  case Nil
  then show ?case by simp
next
  case (Cons dir dirs)
  let ?b = "S6_Status_body (S6_DebugMode sv) dir
              (CombinedOutput w (S6_Cmd ''s6-svstat'' (Join [S6_BaseDir sv, dir]) []))"
  show ?case
  proof (cases ?b)
    case Continue
    then show ?thesis
      using Cons.IH [OF Cons.prems] by (simp add: S6_runCmd_def)
  next
    case (Return e)
    then show ?thesis
      using Cons.prems by (simp add: S6_runCmd_def)
  next
    case (Append svc)
    then have "Status svc \<in> {StatusUp, StatusDown, StatusUnknown}"
      by (rule S6_body_status)
    with Cons.prems
    have "\<forall>s \<in> set (svcs @ [svc]). Status s \<in> {StatusUp, StatusDown, StatusUnknown}"
      by simp
    then show ?thesis
      using Append Cons.IH [of "svcs @ [svc]"] by (simp add: S6_runCmd_def)
  qed
qed


subsection \<open>Rescan on runit\<close>

text \<open>
  C8. \<^verbatim>\<open>Rescan()\<close> on the Runit adapter always returns the error
  \<^verbatim>\<open>ErrUnsupportedCommand\<close>, whatever the directory and the system; it never returns
  \<^verbatim>\<open>nil\<close>, and it starts no subprocess: the list of started subprocesses is unchanged.
\<close>

theorem Runit_Rescan_unsupported:
  "Runit_Rescan sv w tr = (Some ErrUnsupportedCommand, tr)"
  by (simp add: Runit_Rescan_def)

subsection \<open>Scenario A\<close>

lemma sort_two:
  fixes a b :: string
  assumes "distinct xs" and "set xs = {a, b}" and "a < b"
  shows "sort_Strings xs = [a, b]"
proof -
  have "sorted (sort xs)" and "distinct (sort xs)" and "set (sort xs) = set [a, b]"
    using assms by simp_all
  moreover have "sorted [a, b]" and "distinct [a, b]"
    using assms by auto
  ultimately have "sort xs = [a, b]"
    by (metis sorted_distinct_set_unique)
  then show ?thesis
    by (simp add: sort_Strings_def)
qed

lemma db_less_web: "''db'' < ''web''"
  by code_simp

lemma Runit_body_web:
  "Runit_Status_body debug ''web'' (''run: web: (pid 123) 45s'', None) =
     Append \<lparr>Name = ''web'', Status = StatusUp, Pid = 123, Duration = 45 * Second\<rparr>"
proof (cases debug)
  case True
  have "Runit_Status_body True ''web'' (''run: web: (pid 123) 45s'', None) =
     Append \<lparr>Name = ''web'', Status = StatusUp, Pid = 123, Duration = 45 * Second\<rparr>"
    by code_simp
  with True show ?thesis by simp
next
  case False
  have "Runit_Status_body False ''web'' (''run: web: (pid 123) 45s'', None) =
     Append \<lparr>Name = ''web'', Status = StatusUp, Pid = 123, Duration = 45 * Second\<rparr>"
    by code_simp
  with False show ?thesis by simp
qed

lemma Runit_body_db:
  "Runit_Status_body debug ''db'' (''down: db: 12s'', None) =
     Append \<lparr>Name = ''db'', Status = StatusDown, Pid = 0, Duration = 12 * Second\<rparr>"
proof (cases debug)
  case True
  have "Runit_Status_body True ''db'' (''down: db: 12s'', None) =
     Append \<lparr>Name = ''db'', Status = StatusDown, Pid = 0, Duration = 12 * Second\<rparr>"
    by code_simp
  with True show ?thesis by simp
next
  case False
  have "Runit_Status_body False ''db'' (''down: db: 12s'', None) =
     Append \<lparr>Name = ''db'', Status = StatusDown, Pid = 0, Duration = 12 * Second\<rparr>"
    by code_simp
  with False show ?thesis by simp
qed

text \<open>
  C1, as stated, fails. With the status texts \<^verbatim>\<open>run: (pid 123) 45s\<close> and \<^verbatim>\<open>down: 12s\<close>
  neither line matches the pattern of the adapter, which asks for two colons before the
  optional pid: in normal mode both services are skipped and the listing is empty, and in
  debug mode the listing is given up at \<open>db\<close>. In neither mode is the result the list of the
  scenario.
\<close>

theorem Runit_Status_scenario_A_stated_counterexample:
  "fst (Runit_Status (etc_service False) scenario_A_stated []) = ([], None)
   \<and> fst (Runit_Status (etc_service False) scenario_A_stated []) \<noteq>
       ([\<lparr>Name = ''db'', Status = StatusDown, Pid = 0, Duration = 12 * Second\<rparr>,
         \<lparr>Name = ''web'', Status = StatusUp, Pid = 123, Duration = 45 * Second\<rparr>], None)
   \<and> fst (Runit_Status (etc_service True) scenario_A_stated []) =
       ([], Some (Errorf ''failed parsing %q status output: %q'' [S ''db'', S ''down: 12s'']))"
proof -
  have 1: "fst (Runit_Status (etc_service False) scenario_A_stated []) = ([], None)"
    unfolding etc_service_def scenario_A_stated_def scenario_A_files_def by code_simp
  have 2: "fst (Runit_Status (etc_service True) scenario_A_stated []) =
       ([], Some (Errorf ''failed parsing %q status output: %q'' [S ''db'', S ''down: 12s'']))"
    unfolding etc_service_def scenario_A_stated_def scenario_A_files_def by code_simp
  from 1 2 show ?thesis
    by simp
qed

text \<open>
  C1, amended. For the Runit adapter with a base directory whose service subdirectories
  are exactly \<open>web\<close> and \<open>db\<close>, where the output of the status command is
  \<^verbatim>\<open>run: web: (pid 123) 45s\<close> for \<open>web\<close> and \<^verbatim>\<open>down: db: 12s\<close> for \<open>db\<close>, \<^verbatim>\<open>Status()\<close> returns
  the two services \<open>{db, Down, 0, 12s}\<close> and \<open>{web, Up, 123, 45s}\<close>, in this order, and no
  error, in normal and in debug mode.
\<close>

theorem Runit_Status_scenario_A:
  assumes "ReadDir w (BaseDir sv) = (files, None)"
    and "distinct (map fi_Name (filter IsDir files))"
    and "set (map fi_Name (filter IsDir files)) = {''web'', ''db''}"
    and "CombinedOutput w (Runit_Cmd sv ''status'' [''web'']) = (''run: web: (pid 123) 45s'', None)"
    and "CombinedOutput w (Runit_Cmd sv ''status'' [''db'']) = (''down: db: 12s'', None)"
  shows "fst (Runit_Status sv w tr) =
     ([\<lparr>Name = ''db'', Status = StatusDown, Pid = 0, Duration = 12 * Second\<rparr>,
       \<lparr>Name = ''web'', Status = StatusUp, Pid = 123, Duration = 45 * Second\<rparr>], None)"
proof -
  have "set (map fi_Name (filter IsDir files)) = {''db'', ''web''}"
    using assms(3) by auto
  with assms(2) have "sort_Strings (map fi_Name (filter IsDir files)) = [''db'', ''web'']"
    using db_less_web by (rule sort_two)
  then have dirs: "serviceDirs w (BaseDir sv) = ([''db'', ''web''], None)"
    using assms(1) by (simp add: serviceDirs_def)
  show ?thesis
    by (simp add: Runit_Status_def dirs Runit_runCmd_def assms(4,5) Runit_body_web Runit_body_db)
qed

theorem Runit_Status_scenario_A_witness:
  "fst (Runit_Status (etc_service True) scenario_A_sv []) =
     ([\<lparr>Name = ''db'', Status = StatusDown, Pid = 0, Duration = 12 * Second\<rparr>,
       \<lparr>Name = ''web'', Status = StatusUp, Pid = 123, Duration = 45 * Second\<rparr>], None)"
proof -
  have 1: "ReadDir scenario_A_sv (BaseDir (etc_service True)) = (scenario_A_files, None)"
    by (simp add: scenario_A_sv_def scenario_A_stated_def etc_service_def)
  have dirs: "map fi_Name (filter IsDir scenario_A_files) = [''web'', ''db'']"
    unfolding scenario_A_files_def by code_simp
  have 2: "distinct (map fi_Name (filter IsDir scenario_A_files))"
    by (simp add: dirs)
  have 3: "set (map fi_Name (filter IsDir scenario_A_files)) = {''web'', ''db''}"
    by (simp add: dirs)
  have 4: "CombinedOutput scenario_A_sv (Runit_Cmd (etc_service True) ''status'' [''web'']) =
      (''run: web: (pid 123) 45s'', None)"
    by (simp add: scenario_A_sv_def scenario_A_stated_def Runit_Cmd_def)
  have 5: "CombinedOutput scenario_A_sv (Runit_Cmd (etc_service True) ''status'' [''db'']) =
      (''down: db: 12s'', None)"
    by (simp add: scenario_A_sv_def scenario_A_stated_def Runit_Cmd_def)
  show ?thesis
    by (rule Runit_Status_scenario_A [OF 1 2 3 4 5])
qed

subsection \<open>Order of a listing\<close>

lemma serviceDirs_names:
  "set (fst (serviceDirs w base)) \<subseteq> fi_Name ` {f \<in> set (fst (ReadDir w base)). IsDir f}"
  by (auto simp: serviceDirs_def sort_Strings_def split: prod.splits option.splits)

lemma serviceDirs_sorted: "sorted (fst (serviceDirs w base))"
  by (auto simp: serviceDirs_def sort_Strings_def split: prod.splits option.splits)

lemma map_Base_id:
  assumes "\<forall>d \<in> set ds. d \<noteq> [] \<and> CHR ''/'' \<notin> set d"
  shows "map Base ds = ds"
  using assms by (induction ds) (auto simp: Base_id)

text \<open>
  C2. Whatever the system answers (the entries of the base directory in any order, any
  output of any status command, in normal and in debug mode), the services that \<^verbatim>\<open>Status()\<close>
  returns are in increasing bytewise order of their names, and each name is the name of an
  entry of the base directory that is a directory; this holds for the Runit and for the
  S6 adapter. The names of directory entries are taken to be non-empty and free of
  slashes, as the names of files are.
\<close>

theorem Status_sorted_by_directory_name:
  "((\<forall>f \<in> set (fst (ReadDir w (BaseDir sv))). fi_Name f \<noteq> [] \<and> CHR ''/'' \<notin> set (fi_Name f))
      \<longrightarrow> sorted (map Name (fst (fst (Runit_Status sv w tr))))
        \<and> set (map Name (fst (fst (Runit_Status sv w tr))))
            \<subseteq> fi_Name ` {f \<in> set (fst (ReadDir w (BaseDir sv))). IsDir f})
   \<and> ((\<forall>f \<in> set (fst (ReadDir w (S6_BaseDir sv'))). fi_Name f \<noteq> [] \<and> CHR ''/'' \<notin> set (fi_Name f))
      \<longrightarrow> sorted (map Name (fst (fst (S6_Status sv' w tr))))
        \<and> set (map Name (fst (fst (S6_Status sv' w tr))))
            \<subseteq> fi_Name ` {f \<in> set (fst (ReadDir w (S6_BaseDir sv'))). IsDir f})"
proof (intro conjI impI)
  assume valid: "\<forall>f \<in> set (fst (ReadDir w (BaseDir sv))). fi_Name f \<noteq> [] \<and> CHR ''/'' \<notin> set (fi_Name f)"
  let ?dirs = "fst (serviceDirs w (BaseDir sv))"
  have "\<forall>d \<in> set ?dirs. d \<noteq> [] \<and> CHR ''/'' \<notin> set d"
    using valid serviceDirs_names [of w "BaseDir sv"] by fastforce
  then have base: "map Base ?dirs = ?dirs"
    by (rule map_Base_id)
  have res: "fst (fst (Runit_Status sv w tr)) = fst (fst (Runit_Status_loop sv w ?dirs [] tr))
      \<or> fst (fst (Runit_Status sv w tr)) = []"
    by (auto simp: Runit_Status_def split: prod.splits option.splits)
  have "sorted (map Name [] @ map Base ?dirs)"
    by (simp add: base serviceDirs_sorted)
  then have "sorted (map Name (fst (fst (Runit_Status_loop sv w ?dirs [] tr))))"
    by (rule Runit_loop_sorted)
  with res show "sorted (map Name (fst (fst (Runit_Status sv w tr))))"
    by auto
  have "set (map Name (fst (fst (Runit_Status_loop sv w ?dirs [] tr)))) \<subseteq> set ?dirs"
    using Runit_loop_names [of sv w ?dirs "[]" tr] base by (metis Un_empty_left list.set(1) list.simps(8) set_map)
  then have "set (map Name (fst (fst (Runit_Status_loop sv w ?dirs [] tr))))
      \<subseteq> fi_Name ` {f \<in> set (fst (ReadDir w (BaseDir sv))). IsDir f}"
    using serviceDirs_names [of w "BaseDir sv"] by (rule subset_trans)
  with res
  show "set (map Name (fst (fst (Runit_Status sv w tr))))
            \<subseteq> fi_Name ` {f \<in> set (fst (ReadDir w (BaseDir sv))). IsDir f}"
    by (elim disjE) simp_all
next
  assume valid: "\<forall>f \<in> set (fst (ReadDir w (S6_BaseDir sv'))). fi_Name f \<noteq> [] \<and> CHR ''/'' \<notin> set (fi_Name f)"
  let ?dirs = "fst (serviceDirs w (S6_BaseDir sv'))"
  have "\<forall>d \<in> set ?dirs. d \<noteq> [] \<and> CHR ''/'' \<notin> set d"
    using valid serviceDirs_names [of w "S6_BaseDir sv'"] by fastforce
  then have base: "map Base ?dirs = ?dirs"
    by (rule map_Base_id)
  have res: "fst (fst (S6_Status sv' w tr)) = fst (fst (S6_Status_loop sv' w ?dirs [] tr))
      \<or> fst (fst (S6_Status sv' w tr)) = []"
    by (auto simp: S6_Status_def split: prod.splits option.splits)
  have "sorted (map Name [] @ map Base ?dirs)"
    by (simp add: base serviceDirs_sorted)
  then have "sorted (map Name (fst (fst (S6_Status_loop sv' w ?dirs [] tr))))"
    by (rule S6_loop_sorted)
  with res show "sorted (map Name (fst (fst (S6_Status sv' w tr))))"
    by auto
  have "set (map Name (fst (fst (S6_Status_loop sv' w ?dirs [] tr)))) \<subseteq> set ?dirs"
    using S6_loop_names [of sv' w ?dirs "[]" tr] base by (metis Un_empty_left list.set(1) list.simps(8) set_map)
  then have "set (map Name (fst (fst (S6_Status_loop sv' w ?dirs [] tr))))
      \<subseteq> fi_Name ` {f \<in> set (fst (ReadDir w (S6_BaseDir sv'))). IsDir f}"
    using serviceDirs_names [of w "S6_BaseDir sv'"] by (rule subset_trans)
  with res
  show "set (map Name (fst (fst (S6_Status sv' w tr))))
            \<subseteq> fi_Name ` {f \<in> set (fst (ReadDir w (S6_BaseDir sv'))). IsDir f}"
    by (elim disjE) simp_all
qed

lemma three_dirs_valid:
  "\<forall>f \<in> set three_dirs. fi_Name f \<noteq> [] \<and> CHR ''/'' \<notin> set (fi_Name f)"
  unfolding three_dirs_def by code_simp

theorem Status_sorted_by_directory_name_witness:
  "sorted (map Name (fst (fst (Runit_Status (etc_service True) runit_mixed []))))
   \<and> set (map Name (fst (fst (Runit_Status (etc_service True) runit_mixed []))))
        \<subseteq> fi_Name ` {f \<in> set three_dirs. IsDir f}
   \<and> sorted (map Name (fst (fst (S6_Status (run_service False) s6_mixed []))))
   \<and> set (map Name (fst (fst (S6_Status (run_service False) s6_mixed []))))
        \<subseteq> fi_Name ` {f \<in> set three_dirs. IsDir f}"
proof -
  have 1: "fst (ReadDir runit_mixed (BaseDir (etc_service True))) = three_dirs"
    by (simp add: runit_mixed_def example_os_def etc_service_def)
  have 2: "fst (ReadDir s6_mixed (S6_BaseDir (run_service False))) = three_dirs"
    by (simp add: s6_mixed_def example_os_def run_service_def)
  have "sorted (map Name (fst (fst (Runit_Status (etc_service True) runit_mixed []))))
   \<and> set (map Name (fst (fst (Runit_Status (etc_service True) runit_mixed []))))
        \<subseteq> fi_Name ` {f \<in> set three_dirs. IsDir f}"
    using Status_sorted_by_directory_name
        [where w = runit_mixed and sv = "etc_service True" and tr = "[]"] three_dirs_valid
    unfolding 1 by blast
  moreover have "sorted (map Name (fst (fst (S6_Status (run_service False) s6_mixed []))))
   \<and> set (map Name (fst (fst (S6_Status (run_service False) s6_mixed []))))
        \<subseteq> fi_Name ` {f \<in> set three_dirs. IsDir f}"
    using Status_sorted_by_directory_name
        [where w = s6_mixed and sv' = "run_service False" and tr = "[]"] three_dirs_valid
    unfolding 2 by blast
  ultimately show ?thesis
    by blast
qed

subsection \<open>Statuses of s6 services\<close>

text \<open>
  C9. Whatever the status commands print, every service that \<^verbatim>\<open>S6.Status()\<close> returns, in
  normal or in debug mode, with or without an error, has the status \<open>Up\<close>, \<open>Down\<close> or
  \<open>Unknown\<close>: never \<open>Backoff\<close>, \<open>Disabled\<close> or \<open>Resetting\<close>.
\<close>

theorem S6_Status_statuses:
  "\<forall>svc \<in> set (fst (fst (S6_Status sv w tr))).
     Status svc \<in> {StatusUp, StatusDown, StatusUnknown}
     \<and> Status svc \<noteq> StatusBackoff \<and> Status svc \<noteq> StatusDisabled"
proof -
  have "\<forall>svc \<in> set (fst (fst (S6_Status_loop sv w dirs [] tr))).
          Status svc \<in> {StatusUp, StatusDown, StatusUnknown}" for dirs
    by (rule S6_loop_status) simp
  then have "\<forall>svc \<in> set (fst (fst (S6_Status sv w tr))).
          Status svc \<in> {StatusUp, StatusDown, StatusUnknown}"
    by (simp add: S6_Status_def split: prod.splits option.splits)
  then show ?thesis
    by auto
qed

theorem S6_Status_statuses_witness:
  "fst (fst (S6_Status (run_service False) s6_running [])) =
     [\<lparr>Name = ''db'', Status = StatusDown, Pid = 0, Duration = 0\<rparr>,
      \<lparr>Name = ''web'', Status = StatusUp, Pid = 123, Duration = 0\<rparr>]
   \<and> Status \<lparr>Name = ''web'', Status = StatusUp, Pid = 123, Duration = 0\<rparr>
        \<in> {StatusUp, StatusDown, StatusUnknown}
   \<and> Status \<lparr>Name = ''db'', Status = StatusDown, Pid = 0, Duration = 0\<rparr> \<noteq> StatusBackoff"
proof -
  have 1: "fst (fst (S6_Status (run_service False) s6_running [])) =
     [\<lparr>Name = ''db'', Status = StatusDown, Pid = 0, Duration = 0\<rparr>,
      \<lparr>Name = ''web'', Status = StatusUp, Pid = 123, Duration = 0\<rparr>]"
    unfolding run_service_def s6_running_def example_os_def three_dirs_def by code_simp
  show ?thesis
    using S6_Status_statuses [of "run_service False" s6_running "[]"] unfolding 1 by simp
qed

subsection \<open>Errors of a listing in normal mode\<close>

lemma serviceDirs_error:
  "snd (serviceDirs w base) = None \<longleftrightarrow> snd (ReadDir w base) = None"
  by (simp add: serviceDirs_def split: prod.splits option.splits)

text \<open>
  C10. With \<^verbatim>\<open>DebugMode\<close> false, \<^verbatim>\<open>Status()\<close> of the Runit and of the S6 adapter returns a
  \<^verbatim>\<open>nil\<close> error exactly when the base directory can be read: a status command that fails,
  a text that does not match the pattern, a pid or a duration that does not parse never
  make the listing fail, and reading the base directory is the only thing that does.
\<close>

theorem Status_normal_mode_error:
  "(\<not> DebugMode sv \<longrightarrow>
      (snd (fst (Runit_Status sv w tr)) = None \<longleftrightarrow> snd (ReadDir w (BaseDir sv)) = None))
   \<and> (\<not> S6_DebugMode sv' \<longrightarrow>
      (snd (fst (S6_Status sv' w tr)) = None \<longleftrightarrow> snd (ReadDir w (S6_BaseDir sv')) = None))"
proof (intro conjI impI)
  assume "\<not> DebugMode sv"
  then have "snd (fst (Runit_Status_loop sv w dirs [] tr)) = None" for dirs
    by (rule Runit_loop_normal)
  then show "snd (fst (Runit_Status sv w tr)) = None \<longleftrightarrow> snd (ReadDir w (BaseDir sv)) = None"
    using serviceDirs_error [of w "BaseDir sv"]
    by (cases "serviceDirs w (BaseDir sv)"; cases "snd (serviceDirs w (BaseDir sv))")
       (auto simp: Runit_Status_def)
next
  assume "\<not> S6_DebugMode sv'"
  then have "snd (fst (S6_Status_loop sv' w dirs [] tr)) = None" for dirs
    by (rule S6_loop_normal)
  then show "snd (fst (S6_Status sv' w tr)) = None \<longleftrightarrow> snd (ReadDir w (S6_BaseDir sv')) = None"
    using serviceDirs_error [of w "S6_BaseDir sv'"]
    by (cases "serviceDirs w (S6_BaseDir sv')"; cases "snd (serviceDirs w (S6_BaseDir sv'))")
       (auto simp: S6_Status_def)
qed

theorem Status_normal_mode_error_witness:
  "snd (fst (Runit_Status (etc_service False) runit_mixed [])) = None
   \<and> snd (fst (S6_Status (run_service False) s6_running [])) = None
   \<and> snd (fst (S6_Status \<lparr>S6_BaseDir = ''/nowhere'', S6_DebugMode = False\<rparr> s6_running [])) \<noteq> None"
proof -
  have 1: "\<not> DebugMode (etc_service False)"
    and 2: "snd (ReadDir runit_mixed (BaseDir (etc_service False))) = None"
    by (simp_all add: etc_service_def runit_mixed_def example_os_def)
  have 3: "\<not> S6_DebugMode (run_service False)"
    and 4: "snd (ReadDir s6_running (S6_BaseDir (run_service False))) = None"
    by (simp_all add: run_service_def s6_running_def example_os_def)
  have 5: "\<not> S6_DebugMode \<lparr>S6_BaseDir = ''/nowhere'', S6_DebugMode = False\<rparr>"
    and 6: "snd (ReadDir s6_running (S6_BaseDir \<lparr>S6_BaseDir = ''/nowhere'', S6_DebugMode = False\<rparr>))
              \<noteq> None"
    by (simp_all add: s6_running_def example_os_def)
  from 1 2 have "snd (fst (Runit_Status (etc_service False) runit_mixed [])) = None"
    using Status_normal_mode_error [where sv = "etc_service False" and w = runit_mixed and tr = "[]"]
    by blast
  moreover from 3 4 have "snd (fst (S6_Status (run_service False) s6_running [])) = None"
    using Status_normal_mode_error [where sv' = "run_service False" and w = s6_running and tr = "[]"]
    by blast
  moreover from 5 6
  have "snd (fst (S6_Status \<lparr>S6_BaseDir = ''/nowhere'', S6_DebugMode = False\<rparr> s6_running [])) \<noteq> None"
    using Status_normal_mode_error
      [where sv' = "\<lparr>S6_BaseDir = ''/nowhere'', S6_DebugMode = False\<rparr>" and w = s6_running
         and tr = "[]"]
    by auto
  ultimately show ?thesis
    by blast
qed

subsection \<open>One malformed line\<close>







lemma Runit_Cmd_DebugMode [simp]: "Runit_Cmd (sv\<lparr>DebugMode := b\<rparr>) = Runit_Cmd sv"
  by (simp add: Runit_Cmd_def fun_eq_iff)













subsection \<open>A line without a pid\<close>

lemma Runit_fields_no_pid:
  assumes "matches ! 2 = None"
    and "debug \<longrightarrow> snd (ParseDuration (bstr (matches ! 3))) = None"
  shows "\<exists>svc. Runit_Status_fields debug n matches st = Append svc \<and> Pid svc = 0 \<and> Name svc = n"
  using assms by (auto simp: Runit_Status_fields_def blen_def Let_def)

lemma S6_fields_no_pid:
  assumes "FindSubmatch s6PidRegexp (bstr (matches ! 2)) = []"
    and "debug \<longrightarrow> snd (ParseDuration (bstr (matches ! 3))) = None"
  shows "\<exists>svc. S6_Status_fields debug n matches st = Append svc \<and> Pid svc = 0 \<and> Name svc = n"
  using assms by (auto simp: S6_Status_fields_def Let_def)

text \<open>
  C6, as stated, fails in debug mode. The two runit lines below match the pattern, and the
  group of the pid took no part in the match; the state of the first is none of the four
  the adapter knows, and the duration of the second does not fit 64 bits. In debug mode
  the adapter reports either as an error, where the claim promises a service and never a
  parse failure.
\<close>

theorem Status_missing_pid_debug_counterexample:
  "FindSubmatch runitStatusRegexp ''finish: web: 3s'' =
     [Some ''finish: web: 3s'', Some ''finish'', None, Some ''3s'']
   \<and> Runit_Status_body True ''web'' (''finish: web: 3s'', None) =
       Return (Errorf ''failed parsing %q status: %q'' [S ''web'', S ''finish''])
   \<and> FindSubmatch runitStatusRegexp ''down: db: 99999999999999999999s'' =
       [Some ''down: db: 99999999999999999999s'', Some ''down'', None,
        Some ''99999999999999999999s'']
   \<and> Runit_Status_body True ''db'' (''down: db: 99999999999999999999s'', None) =
       Return (Errorf ''failed parsing %q duration %q: %s''
                 [S ''db'', S ''99999999999999999999s'',
                  E (ErrDuration (''time: invalid duration '' @ quote ''99999999999999999999s''))])"
  by code_simp

text \<open>
  C6, amended. Take a status line that matches the pattern of the suite and has no pid:
  for runit the optional group of the pid took no part in the match, for s6 the text
  between the parentheses holds no \<^verbatim>\<open>pid <N>\<close>. In normal mode the round of the listing
  appends a service whose pid is \<open>0\<close>, and never fails. In debug mode it does so too
  whenever the state is one the adapter knows and the duration parses. The missing pid
  itself never makes the round fail, in either adapter.
\<close>

theorem Status_missing_pid:
  "(FindSubmatch runitStatusRegexp raw = [m0, m1, None, m3]
      \<and> (debug \<longrightarrow> Runit_Status_switch (bstr m1) \<noteq> None \<and> snd (ParseDuration (bstr m3)) = None)
    \<longrightarrow> (\<exists>svc. Runit_Status_body debug dir (raw, None) = Append svc
               \<and> Pid svc = 0 \<and> Name svc = Base dir))
   \<and> (FindSubmatch s6StatusRegexp raw' = [m0', m1', m2', m3']
      \<and> FindSubmatch s6PidRegexp (bstr m2') = []
      \<and> (debug \<longrightarrow> S6_Status_switch (bstr m1') \<noteq> None \<and> snd (ParseDuration (bstr m3')) = None)
    \<longrightarrow> (\<exists>svc. S6_Status_body debug dir (raw', None) = Append svc
               \<and> Pid svc = 0 \<and> Name svc = Base dir))"
proof (intro conjI impI; elim conjE)
  assume m: "FindSubmatch runitStatusRegexp raw = [m0, m1, None, m3]"
    and d: "debug \<longrightarrow> Runit_Status_switch (bstr m1) \<noteq> None \<and> snd (ParseDuration (bstr m3)) = None"
  have "\<exists>svc. Runit_Status_fields debug (Base dir) [m0, m1, None, m3] st = Append svc
          \<and> Pid svc = 0 \<and> Name svc = Base dir" for st
    using d by (intro Runit_fields_no_pid) simp_all
  then show "\<exists>svc. Runit_Status_body debug dir (raw, None) = Append svc
               \<and> Pid svc = 0 \<and> Name svc = Base dir"
    using d by (cases debug; cases "Runit_Status_switch (bstr m1)")
      (simp_all add: Runit_Status_body_def m Let_def)
next
  assume m: "FindSubmatch s6StatusRegexp raw' = [m0', m1', m2', m3']"
    and p: "FindSubmatch s6PidRegexp (bstr m2') = []"
    and d: "debug \<longrightarrow> S6_Status_switch (bstr m1') \<noteq> None \<and> snd (ParseDuration (bstr m3')) = None"
  have "\<exists>svc. S6_Status_fields debug (Base dir) [m0', m1', m2', m3'] st = Append svc
          \<and> Pid svc = 0 \<and> Name svc = Base dir" for st
    using d p by (intro S6_fields_no_pid) simp_all
  then show "\<exists>svc. S6_Status_body debug dir (raw', None) = Append svc
               \<and> Pid svc = 0 \<and> Name svc = Base dir"
    using d by (cases debug; cases "S6_Status_switch (bstr m1')")
      (simp_all add: S6_Status_body_def m Let_def)
qed

theorem Status_missing_pid_witness:
  "(\<exists>svc. Runit_Status_body True ''db'' (''down: db: 12s'', None) = Append svc
        \<and> Pid svc = 0 \<and> Name svc = Base ''db'')
   \<and> (\<exists>svc. S6_Status_body True ''db'' (''down (exitcode 0) 0/'', None) = Append svc
        \<and> Pid svc = 0 \<and> Name svc = Base ''db'')
   \<and> (\<exists>svc. S6_Status_body False ''db'' (''down (exitcode 0) 7/'', None) = Append svc
        \<and> Pid svc = 0 \<and> Name svc = Base ''db'')"
proof -
  have r: "FindSubmatch runitStatusRegexp ''down: db: 12s'' =
      [Some ''down: db: 12s'', Some ''down'', None, Some ''12s'']"
    by code_simp
  have rd: "Runit_Status_switch (bstr (Some ''down'')) \<noteq> None
      \<and> snd (ParseDuration (bstr (Some ''12s''))) = None"
    by code_simp
  have s0: "FindSubmatch s6StatusRegexp ''down (exitcode 0) 0/'' =
      [Some ''down (exitcode 0) 0/'', Some ''down'', Some ''exitcode 0'', Some ''0'']"
    by code_simp
  have s7: "FindSubmatch s6StatusRegexp ''down (exitcode 0) 7/'' =
      [Some ''down (exitcode 0) 7/'', Some ''down'', Some ''exitcode 0'', Some ''7'']"
    by code_simp
  have p: "FindSubmatch s6PidRegexp (bstr (Some ''exitcode 0'')) = []"
    by code_simp
  have sd: "S6_Status_switch (bstr (Some ''down'')) \<noteq> None
      \<and> snd (ParseDuration (bstr (Some ''0''))) = None"
    by code_simp
  have "\<exists>svc. Runit_Status_body True ''db'' (''down: db: 12s'', None) = Append svc
        \<and> Pid svc = 0 \<and> Name svc = Base ''db''"
    using Status_missing_pid [where raw = "''down: db: 12s''" and debug = True and dir = "''db''"]
      r rd by blast
  moreover
  have "\<exists>svc. S6_Status_body True ''db'' (''down (exitcode 0) 0/'', None) = Append svc
        \<and> Pid svc = 0 \<and> Name svc = Base ''db''"
    using Status_missing_pid [where raw' = "''down (exitcode 0) 0/''" and debug = True and dir = "''db''"]
      s0 p sd by blast
  moreover
  have "\<exists>svc. S6_Status_body False ''db'' (''down (exitcode 0) 7/'', None) = Append svc
        \<and> Pid svc = 0 \<and> Name svc = Base ''db''"
    using Status_missing_pid [where raw' = "''down (exitcode 0) 7/''" and debug = False and dir = "''db''"]
      s7 p by blast
  ultimately show ?thesis
    by blast
qed

subsection \<open>Signals\<close>

lemma Runit_Signal_switch_None:
  "Runit_Signal_switch signal = None \<longleftrightarrow>
     signal \<notin> {SIGSTOP, SIGCONT, SIGHUP, SIGALRM, SIGINT, SIGQUIT, SIGUSR1, SIGUSR2, SIGTERM,
                 SIGKILL}"
  by (simp add: Runit_Signal_switch_def)

lemma S6_Signal_switch_None:
  "S6_Signal_switch signal = None \<longleftrightarrow>
     signal \<notin> {SIGALRM, SIGABRT, SIGQUIT, SIGHUP, SIGKILL, SIGTERM, SIGINT, SIGUSR1, SIGUSR2,
                 SIGCONT, SIGWINCH}"
  by (simp add: S6_Signal_switch_def)

lemma S6_Signal_loop_trace:
  "snd (S6_Signal_loop sv w cmd svcs tr) =
     tr @ map (\<lambda>s. S6_Cmd ''s6-svc'' cmd [fullService sv s])
            (take (Suc (length (takeWhile
               (\<lambda>s. snd (CombinedOutput w (S6_Cmd ''s6-svc'' cmd [fullService sv s])) = None) svcs)))
               svcs)"
proof (induction svcs arbitrary: tr)
  case Nil
  show ?case by simp
next
  case (Cons s svcs)
  show ?case
    by (cases "snd (CombinedOutput w (S6_Cmd ''s6-svc'' cmd [fullService sv s]))")
       (simp_all add: S6_runCmd_def Cons.IH)
qed

lemma S6_Signal_loop_result:
  "fst (S6_Signal_loop sv w cmd svcs tr) = None \<longleftrightarrow>
     (\<forall>s \<in> set svcs. snd (CombinedOutput w (S6_Cmd ''s6-svc'' cmd [fullService sv s])) = None)"
proof (induction svcs arbitrary: tr)
  case Nil
  show ?case by simp
next
  case (Cons s svcs)
  show ?case
    by (cases "snd (CombinedOutput w (S6_Cmd ''s6-svc'' cmd [fullService sv s]))")
       (simp_all add: S6_runCmd_def Cons.IH)
qed

text \<open>
  C3, as stated, fails in its second half for s6: \<^verbatim>\<open>S6.Signal\<close> returns at the first
  \<^verbatim>\<open>s6-svc\<close> that fails, so the targets after it are not signalled. Here \<^verbatim>\<open>SIGHUP\<close> is in
  the table of s6, the command fails on \<open>db\<close>, and no command is issued for \<open>web\<close>.
\<close>

theorem S6_Signal_each_target_counterexample:
  "S6_Signal_switch SIGHUP = Some ''-h''
   \<and> S6_Signal (run_service False) s6_running SIGHUP [''db'', ''web''] [] =
       (Some (Errorf ''failed signaling %s: %s'' [S ''db'', E (ErrExternal ''exit status 1'')]),
        [S6_Cmd ''s6-svc'' ''-h'' [''/run/service/db'']])
   \<and> S6_Cmd ''s6-svc'' ''-h'' [fullService (run_service False) ''web'']
        \<notin> set (snd (S6_Signal (run_service False) s6_running SIGHUP [''db'', ''web''] []))"
proof -
  have 1: "S6_Signal_switch SIGHUP = Some ''-h''"
    by code_simp
  have 2: "S6_Signal (run_service False) s6_running SIGHUP [''db'', ''web''] [] =
       (Some (Errorf ''failed signaling %s: %s'' [S ''db'', E (ErrExternal ''exit status 1'')]),
        [S6_Cmd ''s6-svc'' ''-h'' [''/run/service/db'']])"
    unfolding run_service_def s6_running_def example_os_def three_dirs_def by code_simp
  have 3: "S6_Cmd ''s6-svc'' ''-h'' [fullService (run_service False) ''web''] \<noteq>
      S6_Cmd ''s6-svc'' ''-h'' [''/run/service/db'']"
    unfolding run_service_def by code_simp
  from 1 2 3 show ?thesis
    by simp
qed

text \<open>
  C3, amended. For a signal that is not in the table of the suite (for runit: not one of
  \<^verbatim>\<open>STOP, CONT, HUP, ALRM, INT, QUIT, USR1, USR2, TERM, KILL\<close>; for s6: not one of
  \<^verbatim>\<open>ALRM, ABRT, QUIT, HUP, KILL, TERM, INT, USR1, USR2, CONT, WINCH\<close>) and for every list of
  targets, \<^verbatim>\<open>Signal()\<close> returns \<^verbatim>\<open>ErrUnsupportedSignal\<close> and starts no subprocess. For a signal
  of the table with the flag \<open>flag\<close>, the Runit adapter issues exactly one command,
  \<^verbatim>\<open>sv flag\<close> with the paths of all targets; the S6 adapter issues \<^verbatim>\<open>s6-svc flag path\<close> for the
  targets in their order, up to and including the first target on which the command
  fails, and for all targets when none fails, which is exactly when it returns no error.
\<close>

theorem Signal_invocations:
  "(signal \<notin> {SIGSTOP, SIGCONT, SIGHUP, SIGALRM, SIGINT, SIGQUIT, SIGUSR1, SIGUSR2, SIGTERM,
                SIGKILL}
      \<longrightarrow> Runit_Signal sv w signal svcs tr = (Some ErrUnsupportedSignal, tr))
   \<and> (Runit_Signal_switch signal = Some flag
      \<longrightarrow> snd (Runit_Signal sv w signal svcs tr) =
            tr @ [Runit_Cmd sv flag (map (\<lambda>s. Join [BaseDir sv, s]) svcs)])
   \<and> (signal \<notin> {SIGALRM, SIGABRT, SIGQUIT, SIGHUP, SIGKILL, SIGTERM, SIGINT, SIGUSR1, SIGUSR2,
                  SIGCONT, SIGWINCH}
      \<longrightarrow> S6_Signal sv' w signal svcs tr = (Some ErrUnsupportedSignal, tr))
   \<and> (S6_Signal_switch signal = Some flag'
      \<longrightarrow> snd (S6_Signal sv' w signal svcs tr) =
            tr @ map (\<lambda>s. S6_Cmd ''s6-svc'' flag' [Join [S6_BaseDir sv', s]])
                   (take (Suc (length (takeWhile
                      (\<lambda>s. snd (CombinedOutput w
                                  (S6_Cmd ''s6-svc'' flag' [Join [S6_BaseDir sv', s]])) = None)
                      svcs))) svcs)
        \<and> (fst (S6_Signal sv' w signal svcs tr) = None \<longleftrightarrow>
             (\<forall>s \<in> set svcs. snd (CombinedOutput w
                                  (S6_Cmd ''s6-svc'' flag' [Join [S6_BaseDir sv', s]])) = None)))"
proof (intro conjI impI)
  assume "signal \<notin> {SIGSTOP, SIGCONT, SIGHUP, SIGALRM, SIGINT, SIGQUIT, SIGUSR1, SIGUSR2,
                      SIGTERM, SIGKILL}"
  then have "Runit_Signal_switch signal = None"
    by (rule Runit_Signal_switch_None [THEN iffD2])
  then show "Runit_Signal sv w signal svcs tr = (Some ErrUnsupportedSignal, tr)"
    by (simp add: Runit_Signal_def)
next
  assume "Runit_Signal_switch signal = Some flag"
  then show "snd (Runit_Signal sv w signal svcs tr) =
      tr @ [Runit_Cmd sv flag (map (\<lambda>s. Join [BaseDir sv, s]) svcs)]"
    by (simp add: Runit_Signal_def Runit_runCmd_def fullSvcs_def mapStrings_def)
next
  assume "signal \<notin> {SIGALRM, SIGABRT, SIGQUIT, SIGHUP, SIGKILL, SIGTERM, SIGINT, SIGUSR1,
                      SIGUSR2, SIGCONT, SIGWINCH}"
  then have "S6_Signal_switch signal = None"
    by (rule S6_Signal_switch_None [THEN iffD2])
  then show "S6_Signal sv' w signal svcs tr = (Some ErrUnsupportedSignal, tr)"
    by (simp add: S6_Signal_def)
next
  assume "S6_Signal_switch signal = Some flag'"
  then show "snd (S6_Signal sv' w signal svcs tr) =
      tr @ map (\<lambda>s. S6_Cmd ''s6-svc'' flag' [Join [S6_BaseDir sv', s]])
             (take (Suc (length (takeWhile
                (\<lambda>s. snd (CombinedOutput w
                            (S6_Cmd ''s6-svc'' flag' [Join [S6_BaseDir sv', s]])) = None)
                svcs))) svcs)"
    using S6_Signal_loop_trace [of sv' w flag' svcs tr]
    by (simp add: S6_Signal_def fullService_def)
next
  assume "S6_Signal_switch signal = Some flag'"
  then show "fst (S6_Signal sv' w signal svcs tr) = None \<longleftrightarrow>
      (\<forall>s \<in> set svcs. snd (CombinedOutput w
                            (S6_Cmd ''s6-svc'' flag' [Join [S6_BaseDir sv', s]])) = None)"
    using S6_Signal_loop_result [of sv' w flag' svcs tr]
    by (simp add: S6_Signal_def fullService_def)
qed


theorem Signal_invocations_witness:
  "Runit_Signal (etc_service False) runit_mixed SIGWINCH [''web'', ''db''] [] =
     (Some ErrUnsupportedSignal, [])
   \<and> snd (Runit_Signal (etc_service False) runit_mixed SIGUSR1 [''web'', ''db''] []) =
       [Runit_Cmd (etc_service False) ''1'' [''/etc/service/web'', ''/etc/service/db'']]
   \<and> S6_Signal (run_service False) s6_signalled SIGSTOP [''web'', ''db''] [] =
       (Some ErrUnsupportedSignal, [])
   \<and> snd (S6_Signal (run_service False) s6_signalled SIGUSR1 [''web'', ''db''] []) =
       [S6_Cmd ''s6-svc'' ''-1'' [''/run/service/web''], S6_Cmd ''s6-svc'' ''-1'' [''/run/service/db'']]
   \<and> fst (S6_Signal (run_service False) s6_signalled SIGUSR1 [''web'', ''db''] []) = None"
proof -
  have r0: "SIGWINCH \<notin> {SIGSTOP, SIGCONT, SIGHUP, SIGALRM, SIGINT, SIGQUIT, SIGUSR1, SIGUSR2,
                           SIGTERM, SIGKILL}"
    by code_simp
  have r1: "Runit_Signal_switch SIGUSR1 = Some ''1''"
    by code_simp
  have r2: "map (\<lambda>s. Join [BaseDir (etc_service False), s]) [''web'', ''db''] =
      [''/etc/service/web'', ''/etc/service/db'']"
    unfolding etc_service_def by code_simp
  have s0: "SIGSTOP \<notin> {SIGALRM, SIGABRT, SIGQUIT, SIGHUP, SIGKILL, SIGTERM, SIGINT, SIGUSR1,
                          SIGUSR2, SIGCONT, SIGWINCH}"
    by code_simp
  have s1: "S6_Signal_switch SIGUSR1 = Some ''-1''"
    by code_simp
  have s2: "map (\<lambda>s. S6_Cmd ''s6-svc'' ''-1'' [Join [S6_BaseDir (run_service False), s]])
       (take (Suc (length (takeWhile
          (\<lambda>s. snd (CombinedOutput s6_signalled
                      (S6_Cmd ''s6-svc'' ''-1'' [Join [S6_BaseDir (run_service False), s]])) = None)
          [''web'', ''db'']))) [''web'', ''db'']) =
      [S6_Cmd ''s6-svc'' ''-1'' [''/run/service/web''], S6_Cmd ''s6-svc'' ''-1'' [''/run/service/db'']]"
    unfolding run_service_def s6_signalled_def example_os_def by code_simp
  have s3: "\<forall>s \<in> set [''web'', ''db'']. snd (CombinedOutput s6_signalled
              (S6_Cmd ''s6-svc'' ''-1'' [Join [S6_BaseDir (run_service False), s]])) = None"
    unfolding run_service_def s6_signalled_def example_os_def by code_simp
  have "Runit_Signal (etc_service False) runit_mixed SIGWINCH [''web'', ''db''] [] =
     (Some ErrUnsupportedSignal, [])"
    using Signal_invocations [where signal = SIGWINCH and sv = "etc_service False"
        and w = runit_mixed and svcs = "[''web'', ''db'']" and tr = "[]"] r0
    by blast
  moreover
  have "snd (Runit_Signal (etc_service False) runit_mixed SIGUSR1 [''web'', ''db''] []) =
       [] @ [Runit_Cmd (etc_service False) ''1''
               (map (\<lambda>s. Join [BaseDir (etc_service False), s]) [''web'', ''db''])]"
    using Signal_invocations [where signal = SIGUSR1 and sv = "etc_service False"
        and w = runit_mixed and svcs = "[''web'', ''db'']" and tr = "[]" and flag = "''1''"] r1
    by blast
  moreover
  have "S6_Signal (run_service False) s6_signalled SIGSTOP [''web'', ''db''] [] =
       (Some ErrUnsupportedSignal, [])"
    using Signal_invocations [where signal = SIGSTOP and sv' = "run_service False"
        and w = s6_signalled and svcs = "[''web'', ''db'']" and tr = "[]"] s0
    by blast
  moreover
  have "snd (S6_Signal (run_service False) s6_signalled SIGUSR1 [''web'', ''db''] []) =
      [] @ map (\<lambda>s. S6_Cmd ''s6-svc'' ''-1'' [Join [S6_BaseDir (run_service False), s]])
       (take (Suc (length (takeWhile
          (\<lambda>s. snd (CombinedOutput s6_signalled
                      (S6_Cmd ''s6-svc'' ''-1'' [Join [S6_BaseDir (run_service False), s]])) = None)
          [''web'', ''db'']))) [''web'', ''db''])
     \<and> (fst (S6_Signal (run_service False) s6_signalled SIGUSR1 [''web'', ''db''] []) = None \<longleftrightarrow>
        (\<forall>s \<in> set [''web'', ''db'']. snd (CombinedOutput s6_signalled
              (S6_Cmd ''s6-svc'' ''-1'' [Join [S6_BaseDir (run_service False), s]])) = None))"
    using Signal_invocations [where signal = SIGUSR1 and sv' = "run_service False"
        and w = s6_signalled and svcs = "[''web'', ''db'']" and tr = "[]" and flag' = "''-1''"] s1
    by blast
  ultimately show ?thesis
    unfolding r2 s2 using s3 by simp
qed

subsection \<open>The log of a service\<close>

lemma findLogFile_links_none:
  assumes "\<forall>link \<in> set links. bit (fi_Mode link) (32 - 1 - 4) \<longrightarrow>
      (\<exists>target. Readlink w (Join [dir, ''fd'', fi_Name link]) = (target, None)
                \<and> Base target \<noteq> ''current'')"
  shows "findLogFile_links w dir links = ([], None)"
  using assms by (induction links) auto

text \<open>
  C7. Let the status command of the service succeed and name the pid of its logger, and
  let the introspection of that process find no descriptor for a file named \<open>current\<close>:
  either its executable is none of the loggers, or every symbolic link under
  \<^verbatim>\<open>/proc/<pid>/fd\<close> resolves to a path whose last element is not \<open>current\<close>. Then
  \<^verbatim>\<open>Runit.Fg\<close> fails with the error \<^verbatim>\<open>no log file found\<close>, and the only subprocess it has
  started is the status command: among the subprocesses of the call there is no \<^verbatim>\<open>tail\<close>.
\<close>

theorem Runit_Fg_no_log_file:
  assumes "CombinedOutput w (Runit_Cmd sv ''status'' [Join [BaseDir sv, svc]]) = (txt, None)"
    and "FindSubmatch runitLoggerRegexp txt = [m0, m1]"
    and "Atoi (bstr m1) = (pid, None)"
    and "Readlink w (Join [Join [''/proc'', Itoa pid], ''/exe'']) = (exe, None)"
    and "Base exe \<notin> set [''tinylog'', ''s6-log'', ''svlogd'', ''multilog'']
         \<or> (ReadDir w (Join [Join [''/proc'', Itoa pid], ''fd'']) = (links, None)
            \<and> (\<forall>link \<in> set links. bit (fi_Mode link) (32 - 1 - 4) \<longrightarrow>
                 (\<exists>target. Readlink w (Join [Join [''/proc'', Itoa pid], ''fd'', fi_Name link]) =
                             (target, None)
                           \<and> Base target \<noteq> ''current'')))"
  shows "Runit_Fg sv w svc tr =
           (Some (Errorf ''no log file found'' []),
            tr @ [Runit_Cmd sv ''status'' [Join [BaseDir sv, svc]]])
         \<and> filter (\<lambda>c. cmd_Name c = ''tail'') (drop (length tr) (snd (Runit_Fg sv w svc tr))) = []"
proof -
  have "findLogFile w pid = ([], None)"
  proof (cases "Base exe \<in> set [''tinylog'', ''s6-log'', ''svlogd'', ''multilog'']")
    case False
    then show ?thesis
      using assms(4) by (simp add: findLogFile_def Let_def)
  next
    case True
    with assms(5)
    have fd: "ReadDir w (Join [Join [''/proc'', Itoa pid], ''fd'']) = (links, None)"
      and "findLogFile_links w (Join [''/proc'', Itoa pid]) links = ([], None)"
      by (auto intro: findLogFile_links_none)
    then show ?thesis
      using assms(4) True by (simp add: findLogFile_def Let_def)
  qed
  then have "Runit_Fg sv w svc tr =
      (Some (Errorf ''no log file found'' []),
       tr @ [Runit_Cmd sv ''status'' [Join [BaseDir sv, svc]]])"
    using assms(1-3) by (simp add: Runit_Fg_def Runit_runCmd_def)
  then show ?thesis
    by (simp add: Runit_Cmd_def)
qed

theorem Runit_Fg_no_log_file_witness:
  "Runit_Fg (etc_service False) fg_os ''web'' [] =
     (Some (Errorf ''no log file found'' []),
      [Runit_Cmd (etc_service False) ''status'' [''/etc/service/web'']])
   \<and> filter (\<lambda>c. cmd_Name c = ''tail'')
        (drop (length []) (snd (Runit_Fg (etc_service False) fg_os ''web'' []))) = []"
proof -
  let ?sv = "etc_service False"
  let ?links = "[\<lparr>fi_Name = ''0'', fi_Mode = 0x80001C0\<rparr>, \<lparr>fi_Name = ''1'', fi_Mode = 0x80001C0\<rparr>,
                 \<lparr>fi_Name = ''4'', fi_Mode = 0x80001C0\<rparr>]"
  have j: "Join [BaseDir ?sv, ''web''] = ''/etc/service/web''"
    unfolding etc_service_def by code_simp
  have 1: "CombinedOutput fg_os (Runit_Cmd ?sv ''status'' [Join [BaseDir ?sv, ''web'']]) =
      (''run: /etc/service/web: (pid 123) 45s; run: log: (pid 124) 45s'', None)"
    unfolding etc_service_def fg_os_def by code_simp
  have 2: "FindSubmatch runitLoggerRegexp
      ''run: /etc/service/web: (pid 123) 45s; run: log: (pid 124) 45s'' =
      [Some ''log: (pid 124)'', Some ''124'']"
    by code_simp
  have 3: "Atoi (bstr (Some ''124'')) = (124, None)"
    by code_simp
  have 4: "Readlink fg_os (Join [Join [''/proc'', Itoa 124], ''/exe'']) = (''/usr/bin/svlogd'', None)"
    unfolding fg_os_def by code_simp
  have 5: "ReadDir fg_os (Join [Join [''/proc'', Itoa 124], ''fd'']) = (?links, None)"
    unfolding fg_os_def by code_simp
  have 6: "\<forall>link \<in> set ?links. bit (fi_Mode link) (32 - 1 - 4) \<longrightarrow>
      (\<exists>target. Readlink fg_os (Join [Join [''/proc'', Itoa 124], ''fd'', fi_Name link]) = (target, None)
                \<and> Base target \<noteq> ''current'')"
  proof -
    have "Readlink fg_os (Join [Join [''/proc'', Itoa 124], ''fd'', ''0'']) = (''pipe:[12345]'', None)"
      and "Readlink fg_os (Join [Join [''/proc'', Itoa 124], ''fd'', ''1'']) = (''/dev/null'', None)"
      and "Readlink fg_os (Join [Join [''/proc'', Itoa 124], ''fd'', ''4'']) = (''/var/log/web/lock'', None)"
      unfolding fg_os_def by code_simp+
    moreover have "Base ''pipe:[12345]'' \<noteq> ''current''" and "Base ''/dev/null'' \<noteq> ''current''"
      and "Base ''/var/log/web/lock'' \<noteq> ''current''"
      by code_simp+
    ultimately show ?thesis
      by simp
  qed
  from 5 6 have 7: "Base ''/usr/bin/svlogd'' \<notin> set [''tinylog'', ''s6-log'', ''svlogd'', ''multilog'']
      \<or> (ReadDir fg_os (Join [Join [''/proc'', Itoa 124], ''fd'']) = (?links, None)
         \<and> (\<forall>link \<in> set ?links. bit (fi_Mode link) (32 - 1 - 4) \<longrightarrow>
      (\<exists>target. Readlink fg_os (Join [Join [''/proc'', Itoa 124], ''fd'', fi_Name link]) = (target, None)
                \<and> Base target \<noteq> ''current'')))"
    by blast
  show ?thesis
    using Runit_Fg_no_log_file [OF 1 2 3 4 7, of "[]"] unfolding j by (simp add: Runit_Cmd_def)
qed

subsection \<open>The duration of an s6 service\<close>

lemma digit_not_sign:
  assumes "digit c"
  shows "c \<noteq> CHR ''-''" and "c \<noteq> CHR ''+''" and "c \<noteq> CHR ''.''"
  using assms by (auto simp: digit_def less_eq_char_def)

lemma ParseDuration_component_digits:
  assumes "ds \<noteq> []" and "list_all digit ds"
  shows "\<exists>e. ParseDuration_component orig ds d = Inl e"
proof -
  from assms(2) have rest: "dropWhile digit ds = []"
    by (simp add: list_all_iff)
  from assms have hd: "digit (hd ds)"
    by (cases ds) simp_all
  show ?thesis
  proof (cases "leadingInt_loop 0 ds")
    case None
    then show ?thesis
      using hd by (simp add: ParseDuration_component_def ParseDuration_number_def leadingInt_def)
  next
    case (Some v)
    then have "ParseDuration_number orig ds = Inr (v, 0, 1, [])"
      using hd assms(1) by (simp add: ParseDuration_number_def leadingInt_def rest)
    then show ?thesis
      by (simp add: ParseDuration_component_def ParseDuration_unit_def)
  qed
qed

lemma ParseDuration_digits:
  assumes "ds \<noteq> []" and "list_all digit ds" and "ds \<noteq> ''0''"
  shows "fst (ParseDuration ds) = 0 \<and> snd (ParseDuration ds) \<noteq> None"
proof -
  from assms have "digit (hd ds)"
    by (cases ds) simp_all
  then have sign: "hd ds \<noteq> CHR ''-''" "hd ds \<noteq> CHR ''+''"
    by (simp_all add: digit_not_sign)
  obtain e where "ParseDuration_component ds ds 0 = Inl e"
    using ParseDuration_component_digits [OF assms(1,2)] by blast
  then have "ParseDuration_loop ds ds 0 = Inl e"
    using assms(1) by (subst ParseDuration_loop.simps) simp
  then show ?thesis
    using assms(1,3) sign by (simp add: ParseDuration_def)
qed

text \<open>
  C5 does not hold of the code. The third group of the s6 pattern is the bare number of
  seconds, and \<^verbatim>\<open>time.ParseDuration\<close> refuses a number without a unit: for every matching
  line whose token is a number other than \<open>0\<close>, normal mode appends the service with the
  duration \<open>0\<close>, and debug mode gives up the listing with an error. The token \<open>45\<close> does not
  yield 45 seconds.
\<close>

theorem S6_Status_duration_lost:
  assumes "FindSubmatch s6StatusRegexp raw = [m0, m1, m2, Some ds]"
    and "ds \<noteq> []" and "list_all digit ds" and "ds \<noteq> ''0''"
  shows "(\<exists>svc. S6_Status_body False dir (raw, None) = Append svc \<and> Duration svc = 0)
       \<and> (\<exists>e. S6_Status_body True dir (raw, None) = Return e)"
proof -
  have pd: "fst (ParseDuration ds) = 0" "snd (ParseDuration ds) \<noteq> None"
    using ParseDuration_digits [OF assms(2-4)] by simp_all
  have n: "\<exists>svc. S6_Status_fields False n [m0, m1, m2, Some ds] st = Append svc \<and> Duration svc = 0"
    for n st
    using pd assms(2) by (simp add: S6_Status_fields_def Let_def blen_def bstr_def)
  have d: "\<exists>e. S6_Status_fields True n [m0, m1, m2, Some ds] st = Return e" for n st
    using pd assms(2)
    by (auto simp: S6_Status_fields_def Let_def blen_def bstr_def split: option.splits)
  show ?thesis
    using n d
    by (cases "S6_Status_switch (bstr m1)") (simp_all add: S6_Status_body_def assms(1) Let_def)
qed

theorem S6_Status_duration_lost_witness:
  "(\<exists>svc. S6_Status_body False ''web'' (''up (pid 123) 45/'', None) = Append svc \<and> Duration svc = 0)
   \<and> (\<exists>e. S6_Status_body True ''web'' (''up (pid 123) 45/'', None) = Return e)
   \<and> S6_Status_body False ''web'' (''up (pid 123) 45/'', None) =
       Append \<lparr>Name = ''web'', Status = StatusUp, Pid = 123, Duration = 0\<rparr>
   \<and> S6_Status_body True ''web'' (''up (pid 123) 45/'', None) =
       Return (Errorf ''failed parsing %q duration %q: %s''
                 [S ''web'', S ''45'', E (ErrDuration (''time: missing unit in duration '' @ quote ''45''))])"
proof -
  have 1: "FindSubmatch s6StatusRegexp ''up (pid 123) 45/'' =
      [Some ''up (pid 123) 45/'', Some ''up'', Some ''pid 123'', Some ''45'']"
    by code_simp
  have 2: "''45'' \<noteq> []" and 3: "list_all digit ''45''" and 4: "''45'' \<noteq> ''0''"
    by code_simp+
  have 5: "S6_Status_body False ''web'' (''up (pid 123) 45/'', None) =
       Append \<lparr>Name = ''web'', Status = StatusUp, Pid = 123, Duration = 0\<rparr>"
    by code_simp
  have 6: "S6_Status_body True ''web'' (''up (pid 123) 45/'', None) =
       Return (Errorf ''failed parsing %q duration %q: %s''
                 [S ''web'', S ''45'', E (ErrDuration (''time: missing unit in duration '' @ quote ''45''))])"
    by code_simp
  show ?thesis
    using S6_Status_duration_lost [OF 1 2 3 4, of "''web''"] 5 6 by simp
qed

end
